theory Spec2Isabelle
  imports Main "HOL-Library.Sublist" "HOL-Library.AList"
begin

section \<open>Strings, values and errors\<close>

text \<open>
  A string of the program is the list of its UTF-16 code units; \<open>ascii\<close> writes one down
  from its characters. A string is well formed when no surrogate stands alone:
  \<open>toWellFormed\<close> puts U+FFFD in the place of each lone surrogate, as encoding to UTF-8
  does, and \<open>stripBOM\<close> drops one leading U+FEFF, as decoding from UTF-8 does.
\<close>

type_synonym jstring = "int list"

definition ascii :: "string \<Rightarrow> jstring" where
  "ascii s = map of_char s"

fun toWellFormed :: "jstring \<Rightarrow> jstring" where
  "toWellFormed [] = []"
| "toWellFormed [c] = (if 0xD800 \<le> c \<and> c \<le> 0xDFFF then [0xFFFD] else [c])"
| "toWellFormed (c # d # r) =
     (if 0xD800 \<le> c \<and> c \<le> 0xDBFF \<and> 0xDC00 \<le> d \<and> d \<le> 0xDFFF
      then c # d # toWellFormed r
      else if 0xD800 \<le> c \<and> c \<le> 0xDFFF then 0xFFFD # toWellFormed (d # r)
      else c # toWellFormed (d # r))"

definition isWellFormed :: "jstring \<Rightarrow> bool" where
  "isWellFormed s = (toWellFormed s = s)"

definition stripBOM :: "jstring \<Rightarrow> jstring" where
  "stripBOM s = (case s of [] \<Rightarrow> [] | c # r \<Rightarrow> if c = 0xFEFF then r else s)"

text \<open>
  The primitive values of a parameter bag. \<open>JUndefined\<close> is what reading a missing key
  gives; numbers are the integers.
\<close>

datatype jsval =
    JUndefined
  | JNull
  | JBool bool
  | JNum int
  | JStr jstring

text \<open>
  Every value thrown in the program is an \<open>Error\<close> instance. There is one constructor for
  each \<open>throw\<close> of the source and one for each failure of the runtime that the source relies
  on; \<open>message\<close> is the \<open>message\<close> property of the instance and \<open>errorName\<close> its \<open>name\<close>.
  The messages of the five errors that the source throws are its own texts. The texts of
  the runtime's errors differ between runtimes and versions; the ones here stand in for
  them, and no statement below depends on their wording.
\<close>

datatype error =
    HomeNotSet
  | OutsideHome
  | NotInAllowlist jstring
  | EnvVarNotAllowed jstring
  | UnknownCommand jstring
  | TypeError jstring
  | InvalidMode
  | SystemError jstring jstring
  | DecodeError

definition message :: "error \<Rightarrow> jstring" where
  "message e =
     (case e of
        HomeNotSet \<Rightarrow> ascii ''HOME environment variable not set''
      | OutsideHome \<Rightarrow> ascii ''Access denied: path must be within home directory''
      | NotInAllowlist path \<Rightarrow> ascii ''Access denied: '' @ path @ ascii '' is not in allowlist''
      | EnvVarNotAllowed n \<Rightarrow> ascii ''Environment variable not allowed: '' @ n
      | UnknownCommand key \<Rightarrow> ascii ''Unknown resource command: '' @ key
      | TypeError what \<Rightarrow> what @ ascii '' is not of the expected type''
      | InvalidMode \<Rightarrow> ascii ''The mode argument is invalid''
      | SystemError code path \<Rightarrow> code @ ascii '': '' @ path
      | DecodeError \<Rightarrow> ascii ''Unrecognized or truncated data'')"

definition errorName :: "error \<Rightarrow> jstring" where
  "errorName e =
     (case e of
        TypeError _ \<Rightarrow> ascii ''TypeError''
      | InvalidMode \<Rightarrow> ascii ''TypeError''
      | DecodeError \<Rightarrow> ascii ''DecodeError''
      | _ \<Rightarrow> ascii ''Error'')"

text \<open>\<open>String(e)\<close> of an error with a message.\<close>

definition errorToString :: "error \<Rightarrow> jstring" where
  "errorToString e = errorName e @ ascii '': '' @ message e"

text \<open>The error taxonomy of the specification, read off the place that throws.\<close>

datatype error_kind =
    ConfigurationError
  | AccessDenied
  | UnsupportedCommand
  | RuntimeError

definition kind :: "error \<Rightarrow> error_kind" where
  "kind e =
     (case e of
        HomeNotSet \<Rightarrow> ConfigurationError
      | OutsideHome \<Rightarrow> AccessDenied
      | NotInAllowlist _ \<Rightarrow> AccessDenied
      | EnvVarNotAllowed _ \<Rightarrow> AccessDenied
      | UnknownCommand _ \<Rightarrow> UnsupportedCommand
      | _ \<Rightarrow> RuntimeError)"

section \<open>The process and its file system\<close>

text \<open>
  What the program reads and changes: the environment and working directory of the process,
  its effective user, group and supplementary groups, the file system, what was written to
  standard output (\<open>process.stdout.write\<close> and \<open>console.log\<close>), the lines and the raw chunks
  that standard input will deliver, the programs that can be spawned and those that were,
  and the matches the runtime's glob scanner reports for a pattern. A node of the file
  system is a regular file with its text, or a directory, each with its permission bits,
  owner and group; \<open>file_mode\<close> and \<open>dir_mode\<close> are the bits that new files and directories
  get under the process's umask.
\<close>

record stat =
  st_mode :: nat
  st_uid :: nat
  st_gid :: nat

datatype node = File jstring stat | Dir stat

datatype printed = Written jstring | Logged "jsval list"

record world =
  env :: "(jstring \<times> jstring) list"
  cwd :: jstring
  platform :: jstring
  euid :: nat
  egid :: nat
  groups :: "nat list"
  fs :: "(jstring \<times> node) list"
  file_mode :: nat
  dir_mode :: nat
  out :: "printed list"
  stdin_lines :: "jstring list"
  stdin_open :: bool
  stdin_data :: "jstring list"
  programs :: "jstring list"
  spawned :: "jstring list list"
  glob_scan :: "jstring \<Rightarrow> jstring list"

definition getenv :: "world \<Rightarrow> jstring \<Rightarrow> jstring option" where
  "getenv w n = map_of (env w) n"

section \<open>Path resolution\<close>

text \<open>
  \<open>resolve\<close> of \<open>node:path\<close> on a POSIX system. The arguments are taken from the last to the
  first, and then the working directory, until one of them is absolute; empty arguments are
  skipped. The concatenation is then normalised segment by segment: empty segments and
  \<open>.\<close> disappear, \<open>..\<close> removes the segment before it, and above the root it is dropped
  (kept only when the whole path stayed relative).
\<close>

fun segments :: "jstring \<Rightarrow> jstring list" where
  "segments [] = [[]]"
| "segments (c # cs) =
     (if c = of_char (CHR ''/'') then [] # segments cs
      else (case segments cs of [] \<Rightarrow> [[c]] | s # ss \<Rightarrow> (c # s) # ss))"

fun join_path :: "jstring list \<Rightarrow> jstring" where
  "join_path [] = []"
| "join_path [s] = s"
| "join_path (s # t # ss) = s @ ascii ''/'' @ join_path (t # ss)"

fun normalizeSegments :: "bool \<Rightarrow> jstring list \<Rightarrow> jstring list \<Rightarrow> jstring list" where
  "normalizeSegments allowAboveRoot res [] = rev res"
| "normalizeSegments allowAboveRoot res (s # ss) =
     (if s = [] \<or> s = ascii ''.'' then normalizeSegments allowAboveRoot res ss
      else if s = ascii ''..'' then
        (case res of
           [] \<Rightarrow>
             if allowAboveRoot then normalizeSegments allowAboveRoot [ascii ''..''] ss
             else normalizeSegments allowAboveRoot [] ss
         | t # ts \<Rightarrow>
             if t \<noteq> ascii ''..'' then normalizeSegments allowAboveRoot ts ss
             else if allowAboveRoot then normalizeSegments allowAboveRoot (ascii ''..'' # res) ss
             else normalizeSegments allowAboveRoot res ss)
      else normalizeSegments allowAboveRoot (s # res) ss)"

definition normalizeString :: "jstring \<Rightarrow> bool \<Rightarrow> jstring" where
  "normalizeString path allowAboveRoot =
     join_path (normalizeSegments allowAboveRoot [] (segments path))"

fun resolve_loop :: "jstring list \<Rightarrow> jstring \<Rightarrow> jstring \<times> bool" where
  "resolve_loop [] resolvedPath = (resolvedPath, False)"
| "resolve_loop (path # paths) resolvedPath =
     (if path = [] then resolve_loop paths resolvedPath
      else if hd path = of_char (CHR ''/'') then (path @ ascii ''/'' @ resolvedPath, True)
      else resolve_loop paths (path @ ascii ''/'' @ resolvedPath))"

definition resolve :: "jstring \<Rightarrow> jstring list \<Rightarrow> jstring" where
  "resolve wd paths =
     (case resolve_loop (rev paths @ [wd]) [] of
        (resolvedPath, resolvedAbsolute) \<Rightarrow>
          let n = normalizeString resolvedPath (\<not> resolvedAbsolute)
          in if resolvedAbsolute then ascii ''/'' @ n
             else if n \<noteq> [] then n else ascii ''.'')"

section \<open>Security gate\<close>

definition ALLOWED_ENV_VARS :: "jstring list" where
  "ALLOWED_ENV_VARS = [ascii ''HOME'', ascii ''TERMINALWIRE_HOME'', ascii ''TERMINALWIRE_URL'']"

text \<open>
  \<open>path.replace(/^~/, home)\<close>. The second argument of \<open>replace\<close> is a replacement pattern:
  in it \<open>$$\<close> stands for one dollar sign, \<open>$&\<close> for the matched text, \<open>$`\<close> for the text
  before the match and \<open>$'\<close> for the text after it; the expression has no groups, so every
  other \<open>$\<close> stands for itself. The match is the first character, so nothing precedes it.
\<close>

fun getSubstitution :: "jstring \<Rightarrow> jstring \<Rightarrow> jstring \<Rightarrow> jstring" where
  "getSubstitution matched after [] = []"
| "getSubstitution matched after [c] = [c]"
| "getSubstitution matched after (c # d # r) =
     (if c = of_char (CHR ''$'') \<and> d = of_char (CHR ''$'') then of_char (CHR ''$'') # getSubstitution matched after r
      else if c = of_char (CHR ''$'') \<and> d = of_char (CHR ''&'') then matched @ getSubstitution matched after r
      else if c = of_char (CHR ''$'') \<and> d = 0x60 then getSubstitution matched after r
      else if c = of_char (CHR ''$'') \<and> d = 0x27 then after @ getSubstitution matched after r
      else c # getSubstitution matched after (d # r))"

definition expand_home :: "jstring \<Rightarrow> jstring \<Rightarrow> jstring" where
  "expand_home home path =
     (case path of
        [] \<Rightarrow> []
      | c # rest \<Rightarrow>
          if c = of_char (CHR ''~'') then getSubstitution (ascii ''~'') rest home @ rest else path)"

definition normalized_path :: "world \<Rightarrow> jstring \<Rightarrow> jstring \<Rightarrow> jstring" where
  "normalized_path w home path = resolve (cwd w) [expand_home home path]"

definition allowed_dir :: "world \<Rightarrow> jstring \<Rightarrow> jstring" where
  "allowed_dir w home =
     (let terminalwireHome =
        (case getenv w (ascii ''TERMINALWIRE_HOME'') of
           None \<Rightarrow> resolve (cwd w) [home, ascii ''.terminalwire'']
         | Some t \<Rightarrow> if t = [] then resolve (cwd w) [home, ascii ''.terminalwire''] else t)
      in resolve (cwd w) [terminalwireHome])"

definition validatePath :: "world \<Rightarrow> jstring \<Rightarrow> error + jstring" where
  "validatePath w path =
     (case getenv w (ascii ''HOME'') of
        None \<Rightarrow> Inl HomeNotSet
      | Some home \<Rightarrow>
          if home = [] then Inl HomeNotSet
          else
            let normalized = normalized_path w home path in
            if \<not> prefix home normalized then Inl OutsideHome
            else
              let allowedDir = allowed_dir w home in
              if \<not> prefix (allowedDir @ ascii ''/'') normalized \<and> normalized \<noteq> allowedDir
              then Inl (NotInAllowlist path)
              else Inr normalized)"

definition readEnvVar :: "world \<Rightarrow> jstring \<Rightarrow> error + jstring option" where
  "readEnvVar w n =
     (if n \<notin> set ALLOWED_ENV_VARS then Inl (EnvVarNotAllowed n) else Inr (getenv w n))"

section \<open>Runtime services used by the dispatcher\<close>

text \<open>
  A parameter bag maps names to primitive values; reading a name that is not there gives
  \<open>undefined\<close>. Parameters that are lists, maps or binary data are not modelled. A response
  is a primitive value or, for the directory commands, a list of paths.
\<close>

type_synonym params = "(jstring \<times> jsval) list"

definition param :: "params \<Rightarrow> jstring \<Rightarrow> jsval" where
  "param p k = (case map_of p k of None \<Rightarrow> JUndefined | Some v \<Rightarrow> v)"

datatype response = Scalar jsval | Paths "jstring list"

datatype 'a outcome = Returns 'a | Throws error | Exits nat | Pending

definition truthy :: "jsval \<Rightarrow> bool" where
  "truthy v =
     (case v of
        JUndefined \<Rightarrow> False
      | JNull \<Rightarrow> False
      | JBool b \<Rightarrow> b
      | JNum n \<Rightarrow> n \<noteq> 0
      | JStr s \<Rightarrow> s \<noteq> [])"

fun decimal :: "nat \<Rightarrow> jstring" where
  "decimal n =
     (if n < 10 then [48 + int n]
      else decimal (n div 10) @ [48 + int (n mod 10)])"

declare decimal.simps [simp del]

text \<open>\<open>String(v)\<close>, as a template literal and string concatenation apply it.\<close>

definition toString :: "jsval \<Rightarrow> jstring" where
  "toString v =
     (case v of
        JUndefined \<Rightarrow> ascii ''undefined''
      | JNull \<Rightarrow> ascii ''null''
      | JBool b \<Rightarrow> (if b then ascii ''true'' else ascii ''false'')
      | JNum n \<Rightarrow> (if n < 0 then ascii ''-'' @ decimal (nat (- n)) else decimal (nat n))
      | JStr s \<Rightarrow> s)"

text \<open>
  \<open>v.length\<close>: the length of a string; reading a property of \<open>undefined\<close> or \<open>null\<close> throws;
  booleans and numbers have no such property.
\<close>

definition lengthOf :: "jsval \<Rightarrow> error + jsval" where
  "lengthOf v =
     (case v of
        JStr s \<Rightarrow> Inr (JNum (int (length s)))
      | JUndefined \<Rightarrow> Inl (TypeError (ascii ''length''))
      | JNull \<Rightarrow> Inl (TypeError (ascii ''length''))
      | _ \<Rightarrow> Inr JUndefined)"

text \<open>
  The file system is a finite table from canonical absolute paths to nodes. The text of a
  file is kept as UTF-8 decoding gives it, before the byte order mark is dropped; a text
  that is written is well formed, as its UTF-8 encoding is. Access to a file follows its
  permission bits: the owner's for the owner, the group's for a member of the group, the
  others' for anyone else, and none for the superuser. Symbolic links and the permission
  bits of directories are outside the model.
\<close>

definition lookup :: "world \<Rightarrow> jstring \<Rightarrow> node option" where
  "lookup w q = map_of (fs w) q"

definition existsSync :: "world \<Rightarrow> jstring \<Rightarrow> bool" where
  "existsSync w q = (lookup w q \<noteq> None)"

definition R_OK :: nat where
  "R_OK = 4"

definition W_OK :: nat where
  "W_OK = 2"

definition permits :: "world \<Rightarrow> stat \<Rightarrow> nat \<Rightarrow> bool" where
  "permits w st flag =
     (if euid w = 0 then True
      else
        let bits = (if st_uid st = euid w then st_mode st div 64
                    else if st_gid st = egid w \<or> st_gid st \<in> set (groups w)
                      then st_mode st div 8
                    else st_mode st)
        in (bits div flag) mod 2 = 1)"

definition new_stat :: "world \<Rightarrow> nat \<Rightarrow> stat" where
  "new_stat w m = \<lparr>st_mode = m, st_uid = euid w, st_gid = egid w\<rparr>"

definition path_segments :: "jstring \<Rightarrow> jstring list" where
  "path_segments q = filter (\<lambda>s. s \<noteq> []) (segments q)"

definition ancestors :: "jstring \<Rightarrow> jstring list" where
  "ancestors q =
     (let segs = path_segments q
      in map (\<lambda>k. ascii ''/'' @ join_path (take k segs)) [1 ..< length segs])"

definition is_file :: "node option \<Rightarrow> bool" where
  "is_file n = (case n of Some (File _ _) \<Rightarrow> True | _ \<Rightarrow> False)"

fun make_dirs :: "stat \<Rightarrow> jstring list \<Rightarrow> (jstring \<times> node) list \<Rightarrow> (jstring \<times> node) list" where
  "make_dirs st [] t = t"
| "make_dirs st (d # ds) t =
     make_dirs st ds (if map_of t d = None then AList.update d (Dir st) t else t)"

text \<open>
  \<open>Bun.file(q).text()\<close>: the text of a readable regular file, without a leading byte order
  mark.
\<close>

definition read_text :: "world \<Rightarrow> jstring \<Rightarrow> error + jstring" where
  "read_text w q =
     (case lookup w q of
        None \<Rightarrow> Inl (SystemError (ascii ''ENOENT'') q)
      | Some (Dir _) \<Rightarrow> Inl (SystemError (ascii ''EISDIR'') q)
      | Some (File c st) \<Rightarrow>
          if permits w st R_OK then Inr (stripBOM c) else Inl (SystemError (ascii ''EACCES'') q))"

text \<open>
  \<open>Bun.write(q, data)\<close>: a string is written as it is encoded, a number or a boolean as it
  prints, and \<open>undefined\<close> and \<open>null\<close> are refused. A writable file is overwritten and keeps
  its permission bits and owner; a missing file is created for the process with the default
  bits, together with its missing parent directories. The write fails on a directory, on a
  file the process may not write, and below a regular file.
\<close>

definition written_text :: "jsval \<Rightarrow> jstring option" where
  "written_text data =
     (case data of
        JStr s \<Rightarrow> Some (toWellFormed s)
      | JNum n \<Rightarrow> Some (toString (JNum n))
      | JBool b \<Rightarrow> Some (toString (JBool b))
      | _ \<Rightarrow> None)"

definition write_text :: "world \<Rightarrow> jstring \<Rightarrow> jsval \<Rightarrow> error + world" where
  "write_text w q data =
     (case written_text data of
        None \<Rightarrow> Inl (TypeError (ascii ''data''))
      | Some c \<Rightarrow>
          (case lookup w q of
             Some (Dir _) \<Rightarrow> Inl (SystemError (ascii ''EISDIR'') q)
           | Some (File _ st) \<Rightarrow>
               if permits w st W_OK then Inr (w\<lparr>fs := AList.update q (File c st) (fs w)\<rparr>)
               else Inl (SystemError (ascii ''EACCES'') q)
           | None \<Rightarrow>
               if list_ex (\<lambda>a. is_file (lookup w a)) (ancestors q)
               then Inl (SystemError (ascii ''ENOTDIR'') q)
               else Inr (w\<lparr>fs := AList.update q (File c (new_stat w (file_mode w)))
                                  (make_dirs (new_stat w (dir_mode w)) (ancestors q) (fs w))\<rparr>)))"

text \<open>
  \<open>chmod(q, mode)\<close> of \<open>node:fs/promises\<close>: the mode is an unsigned 32-bit integer, given
  as a number or as a string of octal digits, checked before the file is touched; the
  permission bits are the low twelve bits, and only the owner and the superuser may set
  them.
\<close>

definition octal :: "jstring \<Rightarrow> nat" where
  "octal s = foldl (\<lambda>acc c. 8 * acc + nat (c - 48)) 0 s"

definition parseFileMode :: "jsval \<Rightarrow> error + nat" where
  "parseFileMode v =
     (case v of
        JNum n \<Rightarrow> if 0 \<le> n \<and> n < 2 ^ 32 then Inr (nat n) else Inl InvalidMode
      | JStr s \<Rightarrow>
          if s \<noteq> [] \<and> list_all (\<lambda>c. 48 \<le> c \<and> c \<le> 55) s \<and> octal s < 2 ^ 32
          then Inr (octal s)
          else Inl InvalidMode
      | _ \<Rightarrow> Inl InvalidMode)"

definition set_mode :: "nat \<Rightarrow> stat \<Rightarrow> stat" where
  "set_mode m st = st\<lparr>st_mode := m mod 4096\<rparr>"

definition chmod :: "world \<Rightarrow> jstring \<Rightarrow> jsval \<Rightarrow> error + world" where
  "chmod w q v =
     (case parseFileMode v of
        Inl e \<Rightarrow> Inl e
      | Inr m \<Rightarrow>
          (case lookup w q of
             None \<Rightarrow> Inl (SystemError (ascii ''ENOENT'') q)
           | Some (File c st) \<Rightarrow>
               if euid w = 0 \<or> euid w = st_uid st
               then Inr (w\<lparr>fs := AList.update q (File c (set_mode m st)) (fs w)\<rparr>)
               else Inl (SystemError (ascii ''EPERM'') q)
           | Some (Dir st) \<Rightarrow>
               if euid w = 0 \<or> euid w = st_uid st
               then Inr (w\<lparr>fs := AList.update q (Dir (set_mode m st)) (fs w)\<rparr>)
               else Inl (SystemError (ascii ''EPERM'') q)))"

text \<open>\<open>Bun.file(q).unlink()\<close>\<close>

definition unlink :: "world \<Rightarrow> jstring \<Rightarrow> error + world" where
  "unlink w q =
     (case lookup w q of
        None \<Rightarrow> Inl (SystemError (ascii ''ENOENT'') q)
      | Some (Dir _) \<Rightarrow> Inl (SystemError (ascii ''EISDIR'') q)
      | Some (File _ _) \<Rightarrow> Inr (w\<lparr>fs := AList.delete q (fs w)\<rparr>))"

text \<open>\<open>mkdir(q, { recursive: true })\<close>\<close>

definition mkdir :: "world \<Rightarrow> jstring \<Rightarrow> error + world" where
  "mkdir w q =
     (if is_file (lookup w q) then Inl (SystemError (ascii ''EEXIST'') q)
      else if list_ex (\<lambda>a. is_file (lookup w a)) (ancestors q)
      then Inl (SystemError (ascii ''ENOTDIR'') q)
      else Inr (w\<lparr>fs := make_dirs (new_stat w (dir_mode w)) (ancestors q @ [q]) (fs w)\<rparr>))"

text \<open>\<open>rmdir(q)\<close>: only an empty directory is removed.\<close>

definition rmdir :: "world \<Rightarrow> jstring \<Rightarrow> error + world" where
  "rmdir w q =
     (case lookup w q of
        None \<Rightarrow> Inl (SystemError (ascii ''ENOENT'') q)
      | Some (File _ _) \<Rightarrow> Inl (SystemError (ascii ''ENOTDIR'') q)
      | Some (Dir _) \<Rightarrow>
          if list_ex (\<lambda>(k, _). prefix (q @ ascii ''/'') k) (fs w)
          then Inl (SystemError (ascii ''ENOTEMPTY'') q)
          else Inr (w\<lparr>fs := AList.delete q (fs w)\<rparr>))"

section \<open>Resource dispatcher\<close>

datatype status = Success | Failure

record envelope =
  event :: jstring
  name :: jstring
  status :: status
  response :: response

text \<open>
  \<open>validatePath(p.path as string)\<close>: the cast does nothing at run time. A value that is not a
  string has no \<open>replace\<close> method, which is found out after \<open>HOME\<close> has been checked.
\<close>

definition validatePathArg :: "world \<Rightarrow> jsval \<Rightarrow> error + jstring" where
  "validatePathArg w v =
     (case v of
        JStr s \<Rightarrow> validatePath w s
      | _ \<Rightarrow>
          (case getenv w (ascii ''HOME'') of
             None \<Rightarrow> Inl HomeNotSet
           | Some home \<Rightarrow> if home = [] then Inl HomeNotSet else Inl (TypeError (ascii ''path''))))"

definition stdout_write :: "world \<Rightarrow> jsval \<Rightarrow> response outcome \<times> world" where
  "stdout_write w v =
     (case v of
        JStr s \<Rightarrow> (Returns (Scalar JNull), w\<lparr>out := out w @ [Written s]\<rparr>)
      | _ \<Rightarrow> (Throws (TypeError (ascii ''chunk'')), w))"

definition console_log :: "world \<Rightarrow> jsval \<Rightarrow> response outcome \<times> world" where
  "console_log w v = (Returns (Scalar JNull), w\<lparr>out := out w @ [Logged [v]]\<rparr>)"

definition read_line :: "world \<Rightarrow> response outcome \<times> world" where
  "read_line w =
     (case stdin_lines w of
        l # ls \<Rightarrow> (Returns (Scalar (JStr l)), w\<lparr>stdin_lines := ls\<rparr>)
      | [] \<Rightarrow> if stdin_open w then (Pending, w) else (Returns (Scalar (JStr [])), w))"

text \<open>
  The \<open>data\<close> handler of \<open>readPassword\<close>, run over the chunks that standard input delivers:
  Enter resolves, backspace drops the last character, Ctrl+C ends the process, anything
  else is appended. When the chunks run out the promise stays pending.
\<close>

fun handler :: "jstring \<Rightarrow> jstring list \<Rightarrow> jstring outcome \<times> jstring list" where
  "handler password [] = (Pending, [])"
| "handler password (char # rest) =
     (if char = [0x0D] \<or> char = [0x0A] then (Returns password, rest)
      else if char = [0x7F] \<or> char = [0x08] then handler (butlast password) rest
      else if char = [0x03] then (Exits 1, rest)
      else handler (password @ char) rest)"

definition readPassword :: "world \<Rightarrow> response outcome \<times> world" where
  "readPassword w =
     (case handler [] (stdin_data w) of
        (Returns password, rest) \<Rightarrow>
          (Returns (Scalar (JStr password)), w\<lparr>stdin_data := rest, out := out w @ [Logged []]\<rparr>)
      | (Throws e, rest) \<Rightarrow> (Throws e, w\<lparr>stdin_data := rest\<rparr>)
      | (Exits n, rest) \<Rightarrow> (Exits n, w\<lparr>stdin_data := rest\<rparr>)
      | (Pending, rest) \<Rightarrow> (Pending, w\<lparr>stdin_data := rest\<rparr>))"

definition file_read :: "world \<Rightarrow> params \<Rightarrow> response outcome \<times> world" where
  "file_read w p =
     (case validatePathArg w (param p (ascii ''path'')) of
        Inl e \<Rightarrow> (Throws e, w)
      | Inr q \<Rightarrow>
          (case read_text w q of
             Inl e \<Rightarrow> (Throws e, w)
           | Inr c \<Rightarrow> (Returns (Scalar (JStr c)), w)))"

definition file_write :: "world \<Rightarrow> params \<Rightarrow> response outcome \<times> world" where
  "file_write w p =
     (case validatePathArg w (param p (ascii ''path'')) of
        Inl e \<Rightarrow> (Throws e, w)
      | Inr writePath \<Rightarrow>
          (case write_text w writePath (param p (ascii ''content'')) of
             Inl e \<Rightarrow> (Throws e, w)
           | Inr w1 \<Rightarrow>
               (case (if truthy (param p (ascii ''mode'')) then chmod w1 writePath (param p (ascii ''mode''))
                      else Inr w1) of
                  Inl e \<Rightarrow> (Throws e, w1)
                | Inr w2 \<Rightarrow>
                    (case lengthOf (param p (ascii ''content'')) of
                       Inl e \<Rightarrow> (Throws e, w2)
                     | Inr n \<Rightarrow> (Returns (Scalar n), w2)))))"

definition file_append :: "world \<Rightarrow> params \<Rightarrow> response outcome \<times> world" where
  "file_append w p =
     (case validatePathArg w (param p (ascii ''path'')) of
        Inl e \<Rightarrow> (Throws e, w)
      | Inr appendPath \<Rightarrow>
          (case (if existsSync w appendPath then read_text w appendPath else Inr []) of
             Inl e \<Rightarrow> (Throws e, w)
           | Inr existing \<Rightarrow>
               (case write_text w appendPath (JStr (existing @ toString (param p (ascii ''content'')))) of
                  Inl e \<Rightarrow> (Throws e, w)
                | Inr w1 \<Rightarrow>
                    (case lengthOf (param p (ascii ''content'')) of
                       Inl e \<Rightarrow> (Throws e, w1)
                     | Inr n \<Rightarrow> (Returns (Scalar n), w1)))))"

definition file_delete :: "world \<Rightarrow> params \<Rightarrow> response outcome \<times> world" where
  "file_delete w p =
     (case validatePathArg w (param p (ascii ''path'')) of
        Inl e \<Rightarrow> (Throws e, w)
      | Inr q \<Rightarrow>
          (case unlink w q of
             Inl e \<Rightarrow> (Throws e, w)
           | Inr w1 \<Rightarrow> (Returns (Scalar (JNum 1)), w1)))"

text \<open>The two existence checks catch whatever the validation throws and answer \<open>false\<close>.\<close>

definition file_exist :: "world \<Rightarrow> params \<Rightarrow> response outcome \<times> world" where
  "file_exist w p =
     (case validatePathArg w (param p (ascii ''path'')) of
        Inl e \<Rightarrow> (Returns (Scalar (JBool False)), w)
      | Inr _ \<Rightarrow>
          (case validatePathArg w (param p (ascii ''path'')) of
             Inl e \<Rightarrow> (Returns (Scalar (JBool False)), w)
           | Inr q \<Rightarrow> (Returns (Scalar (JBool (existsSync w q))), w)))"

definition file_change_mode :: "world \<Rightarrow> params \<Rightarrow> response outcome \<times> world" where
  "file_change_mode w p =
     (case validatePathArg w (param p (ascii ''path'')) of
        Inl e \<Rightarrow> (Throws e, w)
      | Inr q \<Rightarrow>
          (case chmod w q (param p (ascii ''mode'')) of
             Inl e \<Rightarrow> (Throws e, w)
           | Inr w1 \<Rightarrow> (Returns (Scalar (JNum 0)), w1)))"

definition directory_list :: "world \<Rightarrow> params \<Rightarrow> response outcome \<times> world" where
  "directory_list w p =
     (case validatePathArg w (param p (ascii ''path'')) of
        Inl e \<Rightarrow> (Throws e, w)
      | Inr q \<Rightarrow> (Returns (Paths (glob_scan w q)), w))"

definition directory_create :: "world \<Rightarrow> params \<Rightarrow> response outcome \<times> world" where
  "directory_create w p =
     (case validatePathArg w (param p (ascii ''path'')) of
        Inl e \<Rightarrow> (Throws e, w)
      | Inr dirPath \<Rightarrow>
          (case mkdir w dirPath of
             Inl e \<Rightarrow> (Throws e, w)
           | Inr w1 \<Rightarrow> (Returns (Paths [dirPath]), w1)))"

definition directory_exist :: "world \<Rightarrow> params \<Rightarrow> response outcome \<times> world" where
  "directory_exist w p =
     (case validatePathArg w (param p (ascii ''path'')) of
        Inl e \<Rightarrow> (Returns (Scalar (JBool False)), w)
      | Inr q \<Rightarrow> (Returns (Scalar (JBool (existsSync w q))), w))"

definition directory_delete :: "world \<Rightarrow> params \<Rightarrow> response outcome \<times> world" where
  "directory_delete w p =
     (case validatePathArg w (param p (ascii ''path'')) of
        Inl e \<Rightarrow> (Throws e, w)
      | Inr q \<Rightarrow>
          (case rmdir w q of
             Inl e \<Rightarrow> (Throws e, w)
           | Inr w1 \<Rightarrow> (Returns (Scalar (JNum 1)), w1)))"

text \<open>
  \<open>spawn\<close> takes the URL as a string, as \<open>String\<close> prints it, and throws when the opener
  cannot be found.
\<close>

definition browser_launch :: "world \<Rightarrow> params \<Rightarrow> response outcome \<times> world" where
  "browser_launch w p =
     (let openCmd = (if platform w = ascii ''darwin'' then ascii ''open'' else ascii ''xdg-open'');
          url = toString (param p (ascii ''url''))
      in if openCmd \<in> set (programs w)
         then (Returns (Scalar JNull), w\<lparr>spawned := spawned w @ [[openCmd, url]]\<rparr>)
         else (Throws (SystemError (ascii ''ENOENT'') openCmd), w))"

text \<open>
  \<open>readEnvVar(p.name as string)\<close>: no value other than a string is in the allowlist, and the
  message is built from the value as a template literal prints it.
\<close>

definition environment_variable_read :: "world \<Rightarrow> params \<Rightarrow> response outcome \<times> world" where
  "environment_variable_read w p =
     (case (case param p (ascii ''name'') of
              JStr n \<Rightarrow> readEnvVar w n
            | v \<Rightarrow> Inl (EnvVarNotAllowed (toString v))) of
        Inl e \<Rightarrow> (Throws e, w)
      | Inr None \<Rightarrow> (Returns (Scalar JUndefined), w)
      | Inr (Some v) \<Rightarrow> (Returns (Scalar (JStr v)), w))"

definition dispatch :: "world \<Rightarrow> jstring \<Rightarrow> jstring \<Rightarrow> params \<Rightarrow> response outcome \<times> world" where
  "dispatch w resource cmd p =
     (let key = resource @ ascii ''.'' @ cmd in
      if key = ascii ''stdout.print'' \<or> key = ascii ''stderr.print'' then stdout_write w (param p (ascii ''data''))
      else if key = ascii ''stdout.print_line'' \<or> key = ascii ''stderr.print_line''
        then console_log w (param p (ascii ''data''))
      else if key = ascii ''stdin.read_line'' then read_line w
      else if key = ascii ''stdin.read_password'' then readPassword w
      else if key = ascii ''file.read'' then file_read w p
      else if key = ascii ''file.write'' then file_write w p
      else if key = ascii ''file.append'' then file_append w p
      else if key = ascii ''file.delete'' then file_delete w p
      else if key = ascii ''file.exist'' then file_exist w p
      else if key = ascii ''file.change_mode'' then file_change_mode w p
      else if key = ascii ''directory.list'' then directory_list w p
      else if key = ascii ''directory.create'' then directory_create w p
      else if key = ascii ''directory.exist'' then directory_exist w p
      else if key = ascii ''directory.delete'' then directory_delete w p
      else if key = ascii ''browser.launch'' then browser_launch w p
      else if key = ascii ''environment_variable.read'' then environment_variable_read w p
      else (Throws (UnknownCommand key), w))"

text \<open>
  The promise that \<open>handleResource\<close> returns: resolved with an envelope, rejected with an
  error, or never settled, because the process ended or the action is still waiting.
\<close>

datatype 'a settled = Resolved 'a | Rejected error | Terminated nat | Unsettled

definition handleResource ::
  "world \<Rightarrow> jstring \<Rightarrow> jstring \<Rightarrow> params \<Rightarrow> envelope settled \<times> world" where
  "handleResource w resource command p =
     (case dispatch w resource command p of
        (Returns r, w') \<Rightarrow>
          (Resolved \<lparr>event = ascii ''resource'', name = resource, status = Success,
                     response = (if r = Scalar JUndefined then Scalar JNull else r)\<rparr>, w')
      | (Throws e, w') \<Rightarrow>
          (Resolved \<lparr>event = ascii ''resource'', name = resource, status = Failure,
                     response = Scalar (JStr (message e))\<rparr>, w')
      | (Exits n, w') \<Rightarrow> (Terminated n, w')
      | (Pending, w') \<Rightarrow> (Unsettled, w'))"

section \<open>Transport\<close>

text \<open>
  The two message handlers that \<open>connect\<close> installs, one in each copy of the client. A frame
  is its list of bytes. The wire codec and the callback are those of the caller: \<open>decode\<close>
  returns a message or the error it throws, \<open>stringify\<close> prints a message, and \<open>onMessage\<close>
  changes the caller's state and may fail. A connection records whether it was closed, the
  lines sent to \<open>console.error\<close>, the messages handed to \<open>onMessage\<close> and the caller's
  state. A handler either completes or lets an exception escape to the runtime.
\<close>

definition MAX_MESSAGE_SIZE :: nat where
  "MAX_MESSAGE_SIZE = 1024 * 1024"

type_synonym frame = "nat list"

record ('m, 's) connection =
  closed :: bool
  errors :: "jstring list"
  delivered :: "'m list"
  session :: 's

datatype 'a handled = Completed 'a | Uncaught error 'a

definition onmessage_plain ::
  "(frame \<Rightarrow> error + 'm) \<Rightarrow> ('m \<Rightarrow> 's \<Rightarrow> error option \<times> 's) \<Rightarrow> frame \<Rightarrow>
   ('m, 's) connection \<Rightarrow> ('m, 's) connection handled" where
  "onmessage_plain decode onMessage buffer c =
     (if length buffer > MAX_MESSAGE_SIZE
      then Completed (c\<lparr>errors := errors c @ [ascii ''Message too large, ignoring'']\<rparr>)
      else
        (case decode buffer of
           Inl e \<Rightarrow> Uncaught e c
         | Inr msg \<Rightarrow>
             (case onMessage msg (session c) of
                (None, s) \<Rightarrow> Completed (c\<lparr>delivered := delivered c @ [msg], session := s\<rparr>)
              | (Some e, s) \<Rightarrow>
                  Uncaught e (c\<lparr>delivered := delivered c @ [msg], session := s\<rparr>))))"

definition debug_enabled :: "world \<Rightarrow> bool" where
  "debug_enabled w = (getenv w (ascii ''TERMINALWIRE_DEBUG'') = Some (ascii ''1''))"

definition debug_log ::
  "bool \<Rightarrow> jstring \<Rightarrow> ('m, 's) connection \<Rightarrow> ('m, 's) connection" where
  "debug_log debug line c = (if debug then c\<lparr>errors := errors c @ [line]\<rparr> else c)"

definition onmessage_debug ::
  "bool \<Rightarrow> (frame \<Rightarrow> error + 'm) \<Rightarrow> ('m \<Rightarrow> jstring) \<Rightarrow>
   ('m \<Rightarrow> 's \<Rightarrow> error option \<times> 's) \<Rightarrow> frame \<Rightarrow>
   ('m, 's) connection \<Rightarrow> ('m, 's) connection handled" where
  "onmessage_debug debug decode stringify onMessage buffer c =
     (let c1 = debug_log debug
                 (ascii ''[DEBUG] Received '' @ decimal (length buffer) @ ascii '' bytes'') c
      in if length buffer > MAX_MESSAGE_SIZE
         then Completed (c1\<lparr>errors := errors c1 @ [ascii ''Message too large, ignoring'']\<rparr>)
         else
           (case decode buffer of
              Inl e \<Rightarrow>
                Completed
                  (debug_log debug
                     (ascii ''[DEBUG] Error handling message: '' @ errorToString e) c1)
            | Inr msg \<Rightarrow>
                (let c2 = debug_log debug (ascii ''[DEBUG] Decoded: '' @ take 200 (stringify msg)) c1
                 in case onMessage msg (session c2) of
                      (None, s) \<Rightarrow>
                        Completed (c2\<lparr>delivered := delivered c2 @ [msg], session := s\<rparr>)
                    | (Some e, s) \<Rightarrow>
                        Completed
                          (debug_log debug
                             (ascii ''[DEBUG] Error handling message: '' @ errorToString e)
                             (c2\<lparr>delivered := delivered c2 @ [msg], session := s\<rparr>)))))"

text \<open>
  The frames of a connection are handled one at a time, in arrival order. An exception
  that escapes a handler is the runtime's to deal with; the model stops there.
\<close>

fun receive ::
  "(frame \<Rightarrow> 'c \<Rightarrow> 'c handled) \<Rightarrow> frame list \<Rightarrow> 'c \<Rightarrow> 'c handled" where
  "receive h [] c = Completed c"
| "receive h (buffer # rest) c =
     (case h buffer c of
        Completed c' \<Rightarrow> receive h rest c'
      | Uncaught e c' \<Rightarrow> Uncaught e c')"

text \<open>
  A codec for evaluating the handlers on concrete frames. It agrees with MessagePack on
  the frames of one byte that hold a number, \<open>nil\<close>, a boolean or the empty string, and on
  those that MessagePack rejects: the empty frame and the type byte \<open>0xC1\<close>, which is never
  used. Frames that hold a list or a map, and frames of more than one byte, are outside
  this codec: it refuses them.
\<close>

definition decode_scalar :: "frame \<Rightarrow> error + jsval" where
  "decode_scalar buffer =
     (case buffer of
        [b] \<Rightarrow>
          if b < 128 then Inr (JNum (int b))
          else if b = 160 then Inr (JStr [])
          else if b = 192 then Inr JNull
          else if b = 194 then Inr (JBool False)
          else if b = 195 then Inr (JBool True)
          else if 224 \<le> b \<and> b < 256 then Inr (JNum (int b - 256))
          else Inl DecodeError
      | _ \<Rightarrow> Inl DecodeError)"

section \<open>Notions of the specification and sample worlds\<close>

text \<open>
  Containment as the specification words it: a path lies within a root when the segments of
  the root are the leading segments of the path.
\<close>

definition lies_within :: "jstring \<Rightarrow> jstring \<Rightarrow> bool" where
  "lies_within root q = prefix (path_segments root) (path_segments q)"

text \<open>
  The home shorthand as the specification words it: a leading \<open>~\<close> is replaced by the home
  directory, character for character; and the canonical resolution of a path, after that
  expansion.
\<close>

definition textual_expansion :: "jstring \<Rightarrow> jstring \<Rightarrow> jstring" where
  "textual_expansion home path =
     (case path of
        [] \<Rightarrow> []
      | c # rest \<Rightarrow> if c = of_char (CHR ''~'') then home @ rest else path)"

definition canonical_resolution :: "world \<Rightarrow> jstring \<Rightarrow> jstring \<Rightarrow> jstring" where
  "canonical_resolution w home path = resolve (cwd w) [textual_expansion home path]"

text \<open>
  The process may read, or write, the regular file that a path names after validation.
\<close>

definition may_access :: "world \<Rightarrow> jstring \<Rightarrow> nat \<Rightarrow> bool" where
  "may_access w path flag =
     (case validatePath w path of
        Inl _ \<Rightarrow> False
      | Inr q \<Rightarrow> (case lookup w q of Some (File _ st) \<Rightarrow> permits w st flag | _ \<Rightarrow> False))"

text \<open>
  A Linux process of user \<open>u\<close> (uid and gid 1000) whose allowed root
  \<open>/home/u/.terminalwire\<close> exists and is empty; the same with the allowed root moved to
  \<open>/home/u/.x\<close>; the same for a user whose home directory is \<open>/home/a$$b\<close>, and for one
  whose home directory is \<open>/h$$\<close>.
\<close>

definition example_world :: world where
  "example_world =
     \<lparr>env = [(ascii ''HOME'', ascii ''/home/u'')], cwd = ascii ''/work'',
      platform = ascii ''linux'', euid = 1000, egid = 1000, groups = [1000],
      fs = [(ascii ''/home'', Dir \<lparr>st_mode = 493, st_uid = 0, st_gid = 0\<rparr>),
            (ascii ''/home/u'', Dir \<lparr>st_mode = 493, st_uid = 1000, st_gid = 1000\<rparr>),
            (ascii ''/home/u/.terminalwire'',
             Dir \<lparr>st_mode = 493, st_uid = 1000, st_gid = 1000\<rparr>)],
      file_mode = 420, dir_mode = 493,
      out = [], stdin_lines = [], stdin_open = False, stdin_data = [],
      programs = [ascii ''xdg-open''], spawned = [], glob_scan = (\<lambda>_. [])\<rparr>"

definition sibling_world :: world where
  "sibling_world =
     example_world\<lparr>env := [(ascii ''HOME'', ascii ''/home/u''),
                            (ascii ''TERMINALWIRE_HOME'', ascii ''/home/u/.x'')]\<rparr>"

definition dollar_world :: world where
  "dollar_world = example_world\<lparr>env := [(ascii ''HOME'', ascii ''/home/a$$b'')]\<rparr>"

definition pattern_world :: world where
  "pattern_world = example_world\<lparr>env := [(ascii ''HOME'', ascii ''/h$$'')]\<rparr>"

text \<open>
  The first sample world with a file \<open>t.txt\<close> in the allowed root that belongs to the
  user, of mode \<open>0644\<close>, and the same with the file of mode \<open>0200\<close>, which its owner may
  write and not read.
\<close>

definition file_world :: world where
  "file_world =
     example_world\<lparr>fs := fs example_world @
       [(ascii ''/home/u/.terminalwire/t.txt'',
         File (ascii ''old'') \<lparr>st_mode = 420, st_uid = 1000, st_gid = 1000\<rparr>)]\<rparr>"

definition write_only_world :: world where
  "write_only_world =
     example_world\<lparr>fs := fs example_world @
       [(ascii ''/home/u/.terminalwire/t.txt'',
         File (ascii ''old'') \<lparr>st_mode = 128, st_uid = 1000, st_gid = 1000\<rparr>)]\<rparr>"

text \<open>An action completes when it returns or throws.\<close>

definition completes :: "'a outcome \<Rightarrow> bool" where
  "completes oc = (case oc of Returns _ \<Rightarrow> True | Throws _ \<Rightarrow> True | _ \<Rightarrow> False)"

text \<open>
  A connection on which nothing has happened yet, a callback that collects the messages it
  is given, and a frame of one byte more than the cap.
\<close>

definition idle_connection :: "(jsval, jsval list) connection" where
  "idle_connection = \<lparr>closed = False, errors = [], delivered = [], session = []\<rparr>"

definition collect :: "jsval \<Rightarrow> jsval list \<Rightarrow> error option \<times> jsval list" where
  "collect msg received = (None, received @ [msg])"

definition oversized_frame :: frame where
  "oversized_frame = replicate (Suc MAX_MESSAGE_SIZE) 0"

section \<open>Properties of strings and paths\<close>

text \<open>
  Strings written down from characters are equal when their characters are, and are
  concatenated as their characters are.
\<close>

lemma ascii_simps: "ascii [] = []" "ascii (c # cs) = of_char c # ascii cs"
  by (simp_all add: ascii_def)

lemma ascii_inject [simp]: "ascii s = ascii t \<longleftrightarrow> s = t"
proof -
  have "inj (of_char :: char \<Rightarrow> int)"
    by (rule injI) simp
  then show ?thesis
    by (simp add: ascii_def inj_map_eq_map)
qed

lemma ascii_Nil [simp]: "ascii s = [] \<longleftrightarrow> s = []" "[] = ascii s \<longleftrightarrow> s = []"
  by (auto simp: ascii_def)

lemma ascii_append [simp]: "ascii s @ ascii t = ascii (s @ t)"
  by (simp add: ascii_def)


lemma segments_not_Nil [simp]: "segments a \<noteq> []"
  by (induction a) (auto split: list.splits)

lemma segments_append_slash: "segments (a @ of_char (CHR ''/'') # b) = segments a @ segments b"
  by (induction a) (auto split: list.splits)

lemma path_segments_append_slash:
  "path_segments (a @ ascii ''/'' @ b) = path_segments a @ path_segments b"
  by (simp add: path_segments_def ascii_simps segments_append_slash [simplified])

lemma prefix_slash_lies_within:
  assumes "prefix (root @ ascii ''/'') q"
  shows "lies_within root q"
proof -
  from assms obtain z where "q = root @ ascii ''/'' @ z"
    by (auto simp: prefix_def)
  then show ?thesis
    by (simp add: lies_within_def path_segments_append_slash)
qed

text \<open>
  With an absolute working directory every resolution is canonical: a slash followed by
  segments, joined by slashes, none of them empty, \<open>.\<close> or \<open>..\<close>; and these are the segments
  that containment compares.
\<close>

lemma segments_no_slash: "s \<in> set (segments p) \<Longrightarrow> of_char (CHR ''/'') \<notin> set s"
  by (induction p arbitrary: s) (auto split: list.splits if_splits)

lemma normalizeSegments_subset:
  "set (normalizeSegments False res ss)
     \<subseteq> set res \<union> {s \<in> set ss. s \<noteq> [] \<and> s \<noteq> ascii ''.'' \<and> s \<noteq> ascii ''..''}"
proof (induction ss arbitrary: res)
  case Nil
  show ?case
    by simp
next
  case (Cons a ss)
  let ?kept = "{s \<in> set ss. s \<noteq> [] \<and> s \<noteq> ascii ''.'' \<and> s \<noteq> ascii ''..''}"
  consider (skip) "a = [] \<or> a = ascii ''.''"
    | (top) "a = ascii ''..''" "res = []"
    | (pop) t ts where "a = ascii ''..''" "res = t # ts"
    | (push) "a \<noteq> []" "a \<noteq> ascii ''.''" "a \<noteq> ascii ''..''"
    by (cases res) auto
  then show ?case
  proof cases
    case skip
    then have "normalizeSegments False res (a # ss) = normalizeSegments False res ss"
      by auto
    with Cons.IH [of res] show ?thesis
      by auto
  next
    case top
    then have "normalizeSegments False res (a # ss) = normalizeSegments False [] ss"
      by simp
    with Cons.IH [of "[]"] show ?thesis
      by auto
  next
    case pop
    then have "normalizeSegments False res (a # ss)
                 = normalizeSegments False (if t \<noteq> ascii ''..'' then ts else res) ss"
      by simp
    moreover have "set (if t \<noteq> ascii ''..'' then ts else res) \<subseteq> set res"
      using pop by auto
    ultimately show ?thesis
      using Cons.IH [of "if t \<noteq> ascii ''..'' then ts else res"] by auto
  next
    case push
    then have "normalizeSegments False res (a # ss) = normalizeSegments False (a # res) ss"
      by simp
    with Cons.IH [of "a # res"] push show ?thesis
      by auto
  qed
qed

lemma normalizeSegments_clean:
  assumes "s \<in> set (normalizeSegments False [] (segments p))"
  shows "s \<noteq> [] \<and> s \<noteq> ascii ''.'' \<and> s \<noteq> ascii ''..'' \<and> of_char (CHR ''/'') \<notin> set s"
  using assms normalizeSegments_subset [of "[]" "segments p"] segments_no_slash [of s p]
  by auto

lemma resolve_loop_absolute:
  "wd \<noteq> [] \<Longrightarrow> hd wd = of_char (CHR ''/'') \<Longrightarrow> snd (resolve_loop (ps @ [wd]) acc)"
  by (induction ps arbitrary: acc) simp_all

lemma resolve_canonical:
  assumes "wd \<noteq> []" and "hd wd = of_char (CHR ''/'')"
  shows "\<exists>segs. resolve wd ps = ascii ''/'' @ join_path segs
           \<and> (\<forall>s\<in>set segs. s \<noteq> [] \<and> s \<noteq> ascii ''.'' \<and> s \<noteq> ascii ''..'' \<and> of_char (CHR ''/'') \<notin> set s)"
proof -
  obtain rp ab where l: "resolve_loop (rev ps @ [wd]) [] = (rp, ab)"
    by (cases "resolve_loop (rev ps @ [wd]) []")
  with resolve_loop_absolute [OF assms, of "rev ps" "[]"] have ab: "ab"
    by simp
  let ?segs = "normalizeSegments False [] (segments rp)"
  have "\<forall>s\<in>set ?segs. s \<noteq> [] \<and> s \<noteq> ascii ''.'' \<and> s \<noteq> ascii ''..'' \<and> of_char (CHR ''/'') \<notin> set s"
    using normalizeSegments_clean by blast
  moreover from l ab have "resolve wd ps = ascii ''/'' @ join_path ?segs"
    by (simp add: resolve_def normalizeString_def)
  ultimately show ?thesis
    by blast
qed

lemma segments_join_path:
  assumes "\<forall>s\<in>set segs. of_char (CHR ''/'') \<notin> set s" and "segs \<noteq> []"
  shows "segments (join_path segs) = segs"
  using assms
proof (induction segs rule: join_path.induct)
  case 1
  then show ?case by simp
next
  case (2 s)
  then show ?case
    by (induction s) (auto split: list.splits)
next
  case (3 s t ss)
  then have "segments (join_path (t # ss)) = t # ss"
    by simp
  moreover have "of_char (CHR ''/'') \<notin> set s"
    using 3 by simp
  then have "segments (s @ of_char (CHR ''/'') # join_path (t # ss))
               = s # segments (join_path (t # ss))"
    by (induction s) (auto split: list.splits)
  ultimately show ?case
    by (simp add: ascii_simps)
qed

lemma path_segments_canonical:
  assumes "\<forall>s\<in>set segs. s \<noteq> [] \<and> of_char (CHR ''/'') \<notin> set s"
  shows "path_segments (ascii ''/'' @ join_path segs) = segs"
proof (cases segs)
  case Nil
  then show ?thesis
    by (simp add: path_segments_def ascii_simps)
next
  case (Cons a list)
  with assms have "segments (join_path segs) = segs"
    by (intro segments_join_path) auto
  with assms show ?thesis
    by (simp add: path_segments_def filter_id_conv ascii_simps)
qed

section \<open>Properties of the security gate\<close>

text \<open>
  What \<open>validatePath\<close> decides, with the home directory known: a path is returned exactly
  when the resolution that the function computes starts with the home directory and is the
  allowed root itself or starts with the allowed root followed by the separator.
\<close>

lemma validatePath_decision:
  assumes "getenv w (ascii ''HOME'') = Some home" and "home \<noteq> []"
  shows "validatePath w p = Inr q \<longleftrightarrow>
           q = normalized_path w home p \<and> prefix home q
           \<and> (q = allowed_dir w home \<or> prefix (allowed_dir w home @ ascii ''/'') q)"
  using assms by (auto simp: validatePath_def Let_def)

text \<open>
  Where the home directory has no dollar sign in its name, the expansion of the home
  shorthand is the textual one.
\<close>

lemma getSubstitution_no_dollar:
  "of_char (CHR ''$'') \<notin> set r \<Longrightarrow> getSubstitution m a r = r"
  by (induction m a r rule: getSubstitution.induct) auto

lemma expand_home_textual:
  "of_char (CHR ''$'') \<notin> set home \<Longrightarrow> expand_home home path = textual_expansion home path"
  by (simp add: expand_home_def textual_expansion_def getSubstitution_no_dollar
           split: list.splits)

text \<open>
  For such a home directory every path whose canonical resolution lies outside the allowed
  root is refused with an access-denied error.
\<close>

lemma validatePath_refuses_outside_root:
  assumes "getenv w (ascii ''HOME'') = Some home" and "home \<noteq> []"
      and "of_char (CHR ''$'') \<notin> set home"
      and "\<not> lies_within (allowed_dir w home) (canonical_resolution w home p)"
  shows "\<exists>e. validatePath w p = Inl e \<and> kind e = AccessDenied"
proof -
  from assms(3) have n: "normalized_path w home p = canonical_resolution w home p"
    by (simp add: normalized_path_def canonical_resolution_def expand_home_textual)
  with assms(4) have "normalized_path w home p \<noteq> allowed_dir w home"
    by (auto simp: lies_within_def)
  moreover from assms(4) n
  have "\<not> prefix (allowed_dir w home @ ascii ''/'') (normalized_path w home p)"
    using prefix_slash_lies_within by auto
  ultimately show ?thesis
    using assms(1,2) by (simp add: validatePath_def Let_def kind_def)
qed

text \<open>
  The sibling \<open>/home/u/.xx\<close> of the allowed root \<open>/home/u/.x\<close> has the root as a string prefix
  and is refused; so are paths that climb out of the allowed root with \<open>..\<close>, written with
  and without the home shorthand; a path that climbs and stays inside is returned in its
  canonical form.
\<close>

lemma validatePath_probes:
  "prefix (allowed_dir sibling_world (ascii ''/home/u'')) (ascii ''/home/u/.xx'')
   \<and> validatePath sibling_world (ascii ''/home/u/.xx'')
       = Inl (NotInAllowlist (ascii ''/home/u/.xx''))
   \<and> validatePath sibling_world (ascii ''/home/u/.x/../../../etc/passwd'') = Inl OutsideHome
   \<and> validatePath sibling_world (ascii ''~/.x/a/../../../../etc/passwd'') = Inl OutsideHome
   \<and> validatePath sibling_world (ascii ''/home/u/.x/../.y/f'')
       = Inl (NotInAllowlist (ascii ''/home/u/.x/../.y/f''))
   \<and> validatePath sibling_world (ascii ''~/.x/a/./../b//c'') = Inr (ascii ''/home/u/.x/b/c'')"
  by code_simp

text \<open>
  C1 fails on the code for a home directory whose name holds a replacement pattern. With
  \<open>HOME=/h$$\<close> the path \<open>~$/.terminalwire/f\<close> names \<open>/h$$$/.terminalwire/f\<close>, which lies
  outside the allowed root \<open>/h$$/.terminalwire\<close>; the code expands the shorthand to \<open>/h$\<close>
  and returns \<open>/h$$/.terminalwire/f\<close> where the claim has it refuse the path.
\<close>

theorem validatePath_pattern_home_accepts:
  "getenv pattern_world (ascii ''HOME'') = Some (ascii ''/h$$'')
   \<and> canonical_resolution pattern_world (ascii ''/h$$'') (ascii ''~$/.terminalwire/f'')
       = ascii ''/h$$$/.terminalwire/f''
   \<and> allowed_dir pattern_world (ascii ''/h$$'') = ascii ''/h$$/.terminalwire''
   \<and> \<not> lies_within (ascii ''/h$$/.terminalwire'') (ascii ''/h$$$/.terminalwire/f'')
   \<and> validatePath pattern_world (ascii ''~$/.terminalwire/f'')
       = Inr (ascii ''/h$$/.terminalwire/f'')"
  by code_simp

text \<open>
  C3. A name outside the allowlist of three names is refused with an access-denied error;
  a name in the allowlist gives the current value of the variable, or nothing when it is
  unset.
\<close>

theorem readEnvVar_allowlist:
  "(n \<notin> set ALLOWED_ENV_VARS \<longrightarrow> (\<exists>e. readEnvVar w n = Inl e \<and> kind e = AccessDenied))
   \<and> (n \<in> set ALLOWED_ENV_VARS \<longrightarrow> readEnvVar w n = Inr (map_of (env w) n))
   \<and> set ALLOWED_ENV_VARS = {ascii ''HOME'', ascii ''TERMINALWIRE_HOME'', ascii ''TERMINALWIRE_URL''}"
  by (simp add: readEnvVar_def kind_def getenv_def ALLOWED_ENV_VARS_def)

theorem readEnvVar_allowlist_witness:
  "ascii ''PATH'' \<notin> set ALLOWED_ENV_VARS
   \<and> (\<exists>e. readEnvVar example_world (ascii ''PATH'') = Inl e \<and> kind e = AccessDenied)
   \<and> ascii ''HOME'' \<in> set ALLOWED_ENV_VARS
   \<and> readEnvVar example_world (ascii ''HOME'') = Inr (Some (ascii ''/home/u''))
   \<and> ascii ''TERMINALWIRE_URL'' \<in> set ALLOWED_ENV_VARS
   \<and> readEnvVar example_world (ascii ''TERMINALWIRE_URL'') = Inr None"
proof -
  have a: "ascii ''PATH'' \<notin> set ALLOWED_ENV_VARS"
    by (simp add: ALLOWED_ENV_VARS_def)
  have b: "ascii ''HOME'' \<in> set ALLOWED_ENV_VARS"
    by (simp add: ALLOWED_ENV_VARS_def)
  have c: "ascii ''TERMINALWIRE_URL'' \<in> set ALLOWED_ENV_VARS"
    by (simp add: ALLOWED_ENV_VARS_def)
  from a readEnvVar_allowlist [of "ascii ''PATH''" example_world]
  have r1: "\<exists>e. readEnvVar example_world (ascii ''PATH'') = Inl e \<and> kind e = AccessDenied"
    by blast
  from b readEnvVar_allowlist [of "ascii ''HOME''" example_world]
  have r2: "readEnvVar example_world (ascii ''HOME'') = Inr (Some (ascii ''/home/u''))"
    by (simp add: example_world_def)
  from c readEnvVar_allowlist [of "ascii ''TERMINALWIRE_URL''" example_world]
  have r3: "readEnvVar example_world (ascii ''TERMINALWIRE_URL'') = Inr None"
    by (simp add: example_world_def)
  from a b c r1 r2 r3 show ?thesis
    by blast
qed

text \<open>
  C10 fails on the code for a home directory whose name holds a replacement pattern: with
  \<open>HOME=/home/a$$b\<close> the leading \<open>~\<close> is replaced by \<open>/home/a$b\<close>, not by the value of \<open>HOME\<close>,
  and the validation then refuses every \<open>~\<close> path of that user. Otherwise the expansion is
  the textual one: \<open>~alice/f\<close> becomes the home directory followed by \<open>alice/f\<close>, and a
  \<open>~\<close> that is not the first character stays.
\<close>

theorem expand_home_dollar_pattern:
  "expand_home (ascii ''/home/a$$b'') (ascii ''~alice/f'') = ascii ''/home/a$balice/f''
   \<and> textual_expansion (ascii ''/home/a$$b'') (ascii ''~alice/f'') = ascii ''/home/a$$balice/f''
   \<and> expand_home (ascii ''/home/u'') (ascii ''~alice/f'') = ascii ''/home/ualice/f''
   \<and> expand_home (ascii ''/home/u'') (ascii ''a/~/f'') = ascii ''a/~/f''
   \<and> validatePath dollar_world (ascii ''~/.terminalwire/f'') = Inl OutsideHome
   \<and> validatePath dollar_world (ascii ''/home/a$$b/.terminalwire/f'')
       = Inr (ascii ''/home/a$$b/.terminalwire/f'')"
  by code_simp


section \<open>Properties of the file commands\<close>

lemma toWellFormed_append:
  "toWellFormed a = a \<Longrightarrow> toWellFormed (a @ b) = a @ toWellFormed b"
proof (induction a rule: toWellFormed.induct)
  case 1
  then show ?case by simp
next
  case (2 c)
  then show ?case by (cases b) (auto split: if_splits)
next
  case (3 c d r)
  then show ?case by (auto split: if_splits)
qed

lemma stripBOM_without_mark: "\<not> prefix [0xFEFF] s \<Longrightarrow> stripBOM s = s"
  by (cases s) (simp_all add: stripBOM_def)

lemma validatePath_same_process:
  assumes "env w' = env w" and "cwd w' = cwd w"
  shows "validatePath w' p = validatePath w p"
  unfolding validatePath_def normalized_path_def allowed_dir_def getenv_def assms ..

lemma permits_same_user:
  assumes "euid w' = euid w" and "egid w' = egid w" and "groups w' = groups w"
  shows "permits w' st flag = permits w st flag"
  unfolding permits_def assms ..

lemma write_text_result:
  assumes "write_text w q (JStr c) = Inr w1"
  shows "env w1 = env w \<and> cwd w1 = cwd w
       \<and> euid w1 = euid w \<and> egid w1 = egid w \<and> groups w1 = groups w
       \<and> lookup w1 q
           = Some (File (toWellFormed c)
                    (case lookup w q of Some (File _ st) \<Rightarrow> st | _ \<Rightarrow> new_stat w (file_mode w)))"
  using assms
  by (auto simp: write_text_def written_text_def lookup_def update_conv'
           split: option.splits node.splits if_splits)

lemma param_simps [simp]:
  "param ((k, v) # p) k' = (if k = k' then v else param p k')"
  "param [] k' = JUndefined"
  by (simp_all add: param_def)

lemma dispatch_file_read: "dispatch w (ascii ''file'') (ascii ''read'') p = file_read w p"
  by (simp add: dispatch_def)

lemma dispatch_file_write: "dispatch w (ascii ''file'') (ascii ''write'') p = file_write w p"
  by (simp add: dispatch_def)

lemma dispatch_file_append: "dispatch w (ascii ''file'') (ascii ''append'') p = file_append w p"
  by (simp add: dispatch_def)

lemma dispatch_file_exist: "dispatch w (ascii ''file'') (ascii ''exist'') p = file_exist w p"
  by (simp add: dispatch_def)

lemma dispatch_directory_exist:
  "dispatch w (ascii ''directory'') (ascii ''exist'') p = directory_exist w p"
  by (simp add: dispatch_def)

lemma handleResource_success:
  assumes "handleResource w r c p = (Resolved e, w')" and "status e = Success"
  shows "\<exists>v. dispatch w r c p = (Returns v, w')
           \<and> e = \<lparr>event = ascii ''resource'', name = r, status = Success,
                   response = (if v = Scalar JUndefined then Scalar JNull else v)\<rparr>"
proof (cases "dispatch w r c p")
  case (Pair oc w'')
  with assms show ?thesis
    by (cases oc) (auto simp: handleResource_def)
qed

lemma handleResource_returns:
  assumes "dispatch w r c p = (Returns v, w')"
  shows "handleResource w r c p
           = (Resolved \<lparr>event = ascii ''resource'', name = r, status = Success,
                         response = (if v = Scalar JUndefined then Scalar JNull else v)\<rparr>, w')"
  using assms by (simp add: handleResource_def)

lemma handleResource_throws:
  assumes "dispatch w r c p = (Throws x, w')"
  shows "handleResource w r c p
           = (Resolved \<lparr>event = ascii ''resource'', name = r, status = Failure,
                         response = Scalar (JStr (message x))\<rparr>, w')"
  using assms by (simp add: handleResource_def)

lemma file_write_success:
  assumes "file_write w [(ascii ''path'', JStr path), (ascii ''content'', JStr C)]
             = (Returns r, w1)"
  shows "r = Scalar (JNum (int (length C)))
       \<and> (\<exists>q st. validatePath w path = Inr q \<and> validatePath w1 path = Inr q
              \<and> lookup w1 q = Some (File (toWellFormed C) st)
              \<and> euid w1 = euid w \<and> egid w1 = egid w \<and> groups w1 = groups w)"
proof (cases "validatePath w path")
  case (Inl e)
  with assms show ?thesis
    by (simp add: file_write_def validatePathArg_def)
next
  case (Inr q)
  show ?thesis
  proof (cases "write_text w q (JStr C)")
    case (Inl e)
    with assms Inr show ?thesis
      by (simp add: file_write_def validatePathArg_def)
  next
    case wt: (Inr w')
    with assms Inr have "w' = w1" and r: "r = Scalar (JNum (int (length C)))"
      by (simp_all add: file_write_def validatePathArg_def truthy_def lengthOf_def)
    with wt have wt1: "write_text w q (JStr C) = Inr w1"
      by simp
    from write_text_result [OF wt1] have "validatePath w1 path = validatePath w path"
      by (intro validatePath_same_process) simp_all
    with Inr have "validatePath w1 path = Inr q"
      by simp
    with write_text_result [OF wt1] r Inr show ?thesis
      by simp
  qed
qed

lemma file_read_file:
  assumes "validatePath w path = Inr q" and "lookup w q = Some (File c st)"
  shows "file_read w [(ascii ''path'', JStr path)]
           = (if permits w st R_OK then (Returns (Scalar (JStr (stripBOM c))), w)
              else (Throws (SystemError (ascii ''EACCES'') q), w))"
  using assms by (simp add: file_read_def validatePathArg_def read_text_def)

lemma file_append_file:
  assumes "validatePath w path = Inr q" and "lookup w q = Some (File c st)"
  shows "file_append w [(ascii ''path'', JStr path), (ascii ''content'', JStr B)]
           = (if permits w st R_OK \<and> permits w st W_OK
              then (Returns (Scalar (JNum (int (length B)))),
                    w\<lparr>fs := AList.update q (File (toWellFormed (stripBOM c @ B)) st) (fs w)\<rparr>)
              else (Throws (SystemError (ascii ''EACCES'') q), w))"
  using assms
  by (simp add: file_append_def validatePathArg_def existsSync_def read_text_def
                write_text_def written_text_def toString_def lengthOf_def)

lemma file_append_missing:
  assumes "validatePath w path = Inr q" and "\<not> existsSync w q"
      and "file_append w [(ascii ''path'', JStr path), (ascii ''content'', JStr B)]
             = (Returns r, w2)"
  shows "r = Scalar (JNum (int (length B)))
       \<and> validatePath w2 path = Inr q
       \<and> lookup w2 q = Some (File (toWellFormed B) (new_stat w (file_mode w)))
       \<and> euid w2 = euid w \<and> egid w2 = egid w \<and> groups w2 = groups w"
proof (cases "write_text w q (JStr B)")
  case (Inl e)
  with assms show ?thesis
    by (simp add: file_append_def validatePathArg_def toString_def)
next
  case wt: (Inr w')
  with assms have "w' = w2" and r: "r = Scalar (JNum (int (length B)))"
    by (simp_all add: file_append_def validatePathArg_def toString_def lengthOf_def)
  with wt have wt2: "write_text w q (JStr B) = Inr w2"
    by simp
  from write_text_result [OF wt2] have "validatePath w2 path = validatePath w path"
    by (intro validatePath_same_process) simp_all
  moreover from assms(2) have "lookup w q = None"
    by (simp add: existsSync_def)
  ultimately show ?thesis
    using assms(1) write_text_result [OF wt2] r by simp
qed

text \<open>
  C7, as amended. For a well-formed content that does not start with U+FEFF, whenever
  \<open>file.write\<close> with a path and the content answers with a success envelope, the response
  is the length of the content; a following \<open>file.read\<close> of the same path that answers with
  a success envelope answers exactly the content; and it does answer so when the permission
  bits of the written file let the process read it.
\<close>

theorem file_write_then_read:
  assumes "handleResource w (ascii ''file'') (ascii ''write'')
             [(ascii ''path'', JStr path), (ascii ''content'', JStr C)] = (Resolved r, w1)"
      and "status r = Success"
      and "isWellFormed C" and "\<not> prefix [0xFEFF] C"
  shows "r = \<lparr>event = ascii ''resource'', name = ascii ''file'', status = Success,
              response = Scalar (JNum (int (length C)))\<rparr>
       \<and> (\<forall>r2 w2. handleResource w1 (ascii ''file'') (ascii ''read'') [(ascii ''path'', JStr path)]
                     = (Resolved r2, w2) \<and> status r2 = Success
                   \<longrightarrow> response r2 = Scalar (JStr C))
       \<and> (may_access w1 path R_OK \<longrightarrow>
            handleResource w1 (ascii ''file'') (ascii ''read'') [(ascii ''path'', JStr path)]
              = (Resolved \<lparr>event = ascii ''resource'', name = ascii ''file'', status = Success,
                            response = Scalar (JStr C)\<rparr>, w1))"
proof -
  let ?read = "handleResource w1 (ascii ''file'') (ascii ''read'') [(ascii ''path'', JStr path)]"
  from handleResource_success [OF assms(1,2)] obtain v where
    fw: "file_write w [(ascii ''path'', JStr path), (ascii ''content'', JStr C)] = (Returns v, w1)"
    and r: "r = \<lparr>event = ascii ''resource'', name = ascii ''file'', status = Success,
                 response = (if v = Scalar JUndefined then Scalar JNull else v)\<rparr>"
    by (auto simp: dispatch_file_write)
  from file_write_success [OF fw] assms(3) obtain q st where
    v: "v = Scalar (JNum (int (length C)))"
    and q: "validatePath w1 path = Inr q" "lookup w1 q = Some (File C st)"
    by (auto simp: isWellFormed_def)
  from assms(4) have s: "stripBOM C = C"
    by (rule stripBOM_without_mark)
  note fr = file_read_file [OF q]
  show ?thesis
  proof (cases "permits w1 st R_OK")
    case True
    with fr s have "?read
        = (Resolved \<lparr>event = ascii ''resource'', name = ascii ''file'', status = Success,
                      response = Scalar (JStr C)\<rparr>, w1)"
      by (simp add: handleResource_returns dispatch_file_read)
    with r v show ?thesis
      by auto
  next
    case False
    with fr have "?read
        = (Resolved \<lparr>event = ascii ''resource'', name = ascii ''file'', status = Failure,
                      response = Scalar (JStr (message (SystemError (ascii ''EACCES'') q)))\<rparr>, w1)"
      by (simp add: handleResource_throws dispatch_file_read)
    moreover from False q have "\<not> may_access w1 path R_OK"
      by (simp add: may_access_def)
    ultimately show ?thesis
      using r v by auto
  qed
qed


text \<open>
  The scenario of the specification: writing \<open>hi\<close> to \<open>~/.terminalwire/t.txt\<close> answers 2, the
  process may read the new file, and reading it back answers \<open>hi\<close>.
\<close>

theorem file_write_then_read_witness:
  "fst (handleResource example_world (ascii ''file'') (ascii ''write'')
          [(ascii ''path'', JStr (ascii ''~/.terminalwire/t.txt'')),
           (ascii ''content'', JStr (ascii ''hi''))])
     = Resolved \<lparr>event = ascii ''resource'', name = ascii ''file'', status = Success,
                  response = Scalar (JNum 2)\<rparr>
   \<and> isWellFormed (ascii ''hi'') \<and> \<not> prefix [0xFEFF] (ascii ''hi'')
   \<and> may_access
        (snd (handleResource example_world (ascii ''file'') (ascii ''write'')
                [(ascii ''path'', JStr (ascii ''~/.terminalwire/t.txt'')),
                 (ascii ''content'', JStr (ascii ''hi''))]))
        (ascii ''~/.terminalwire/t.txt'') R_OK
   \<and> fst (handleResource
            (snd (handleResource example_world (ascii ''file'') (ascii ''write'')
                    [(ascii ''path'', JStr (ascii ''~/.terminalwire/t.txt'')),
                     (ascii ''content'', JStr (ascii ''hi''))]))
            (ascii ''file'') (ascii ''read'')
            [(ascii ''path'', JStr (ascii ''~/.terminalwire/t.txt''))])
     = Resolved \<lparr>event = ascii ''resource'', name = ascii ''file'', status = Success,
                  response = Scalar (JStr (ascii ''hi''))\<rparr>"
proof -
  let ?wr = "handleResource example_world (ascii ''file'') (ascii ''write'')
               [(ascii ''path'', JStr (ascii ''~/.terminalwire/t.txt'')),
                (ascii ''content'', JStr (ascii ''hi''))]"
  let ?r = "\<lparr>event = ascii ''resource'', name = ascii ''file'', status = Success,
              response = Scalar (JNum 2)\<rparr>"
  have f: "fst ?wr = Resolved ?r"
    by code_simp
  then have h: "?wr = (Resolved ?r, snd ?wr)"
    by (simp add: prod_eq_iff)
  have s: "status ?r = Success"
    by simp
  have wf: "isWellFormed (ascii ''hi'')"
    by code_simp
  have nb: "\<not> prefix [0xFEFF] (ascii ''hi'')"
    by code_simp
  have ma: "may_access (snd ?wr) (ascii ''~/.terminalwire/t.txt'') R_OK"
    by code_simp
  from file_write_then_read [OF h s wf nb] ma
  have "handleResource (snd ?wr) (ascii ''file'') (ascii ''read'')
          [(ascii ''path'', JStr (ascii ''~/.terminalwire/t.txt''))]
        = (Resolved \<lparr>event = ascii ''resource'', name = ascii ''file'', status = Success,
                      response = Scalar (JStr (ascii ''hi''))\<rparr>, snd ?wr)"
    by blast
  with f wf nb ma show ?thesis
    by simp
qed

text \<open>
  C7, as stated, fails on the code in four ways. A content that starts with U+FEFF is
  written, with response 3, and read back without the mark. A lone surrogate is written
  and read back as U+FFFD. On a file that the process may write and not read the write
  succeeds and the read does not. And the allowed root itself passes the validation and
  names a directory, where the write does not succeed.
\<close>

theorem file_write_read_counterexample:
  "fst (handleResource example_world (ascii ''file'') (ascii ''write'')
          [(ascii ''path'', JStr (ascii ''~/.terminalwire/t.txt'')),
           (ascii ''content'', JStr (0xFEFF # ascii ''hi''))])
     = Resolved \<lparr>event = ascii ''resource'', name = ascii ''file'', status = Success,
                  response = Scalar (JNum 3)\<rparr>
   \<and> fst (handleResource
            (snd (handleResource example_world (ascii ''file'') (ascii ''write'')
                    [(ascii ''path'', JStr (ascii ''~/.terminalwire/t.txt'')),
                     (ascii ''content'', JStr (0xFEFF # ascii ''hi''))]))
            (ascii ''file'') (ascii ''read'')
            [(ascii ''path'', JStr (ascii ''~/.terminalwire/t.txt''))])
     = Resolved \<lparr>event = ascii ''resource'', name = ascii ''file'', status = Success,
                  response = Scalar (JStr (ascii ''hi''))\<rparr>
   \<and> fst (handleResource
            (snd (handleResource example_world (ascii ''file'') (ascii ''write'')
                    [(ascii ''path'', JStr (ascii ''~/.terminalwire/t.txt'')),
                     (ascii ''content'', JStr [0xD800])]))
            (ascii ''file'') (ascii ''read'')
            [(ascii ''path'', JStr (ascii ''~/.terminalwire/t.txt''))])
     = Resolved \<lparr>event = ascii ''resource'', name = ascii ''file'', status = Success,
                  response = Scalar (JStr [0xFFFD])\<rparr>
   \<and> fst (handleResource write_only_world (ascii ''file'') (ascii ''write'')
            [(ascii ''path'', JStr (ascii ''~/.terminalwire/t.txt'')),
             (ascii ''content'', JStr (ascii ''hi''))])
     = Resolved \<lparr>event = ascii ''resource'', name = ascii ''file'', status = Success,
                  response = Scalar (JNum 2)\<rparr>
   \<and> fst (handleResource
            (snd (handleResource write_only_world (ascii ''file'') (ascii ''write'')
                    [(ascii ''path'', JStr (ascii ''~/.terminalwire/t.txt'')),
                     (ascii ''content'', JStr (ascii ''hi''))]))
            (ascii ''file'') (ascii ''read'')
            [(ascii ''path'', JStr (ascii ''~/.terminalwire/t.txt''))])
     \<noteq> Resolved \<lparr>event = ascii ''resource'', name = ascii ''file'', status = Success,
                  response = Scalar (JStr (ascii ''hi''))\<rparr>
   \<and> validatePath example_world (ascii ''~/.terminalwire'') = Inr (ascii ''/home/u/.terminalwire'')
   \<and> fst (handleResource example_world (ascii ''file'') (ascii ''write'')
            [(ascii ''path'', JStr (ascii ''~/.terminalwire'')),
             (ascii ''content'', JStr (ascii ''hi''))])
     \<noteq> Resolved \<lparr>event = ascii ''resource'', name = ascii ''file'', status = Success,
                  response = Scalar (JNum 2)\<rparr>
   \<and> fst (handleResource
            (snd (handleResource example_world (ascii ''file'') (ascii ''write'')
                    [(ascii ''path'', JStr (ascii ''~/.terminalwire'')),
                     (ascii ''content'', JStr (ascii ''hi''))]))
            (ascii ''file'') (ascii ''read'') [(ascii ''path'', JStr (ascii ''~/.terminalwire''))])
     \<noteq> Resolved \<lparr>event = ascii ''resource'', name = ascii ''file'', status = Success,
                  response = Scalar (JStr (ascii ''hi''))\<rparr>"
  by code_simp


text \<open>
  C8, as amended. Let \<open>A\<close> and \<open>B\<close> be well formed, with \<open>A @ B\<close> not starting with U+FEFF.
  Whenever \<open>file.write\<close> of \<open>A\<close> and then \<open>file.append\<close> of \<open>B\<close> answer with success
  envelopes, the append answers the length of \<open>B\<close> and a following \<open>file.read\<close> answers
  \<open>A @ B\<close> with nothing in between; the append does succeed when the permission bits of the
  written file let the process read and write it. Where nothing exists at the validated
  path and \<open>file.append\<close> of \<open>B\<close> succeeds, it answers the length of \<open>B\<close>, a following
  \<open>file.read\<close> that succeeds answers \<open>B\<close>, and it succeeds when the process may read the
  new file.
\<close>

theorem file_write_append_read:
  "(handleResource w (ascii ''file'') (ascii ''write'')
      [(ascii ''path'', JStr path), (ascii ''content'', JStr A)] = (Resolved r, w1)
    \<and> status r = Success \<and> isWellFormed A \<and> isWellFormed B \<and> \<not> prefix [0xFEFF] (A @ B) \<longrightarrow>
      (\<forall>r2 w2. handleResource w1 (ascii ''file'') (ascii ''append'')
                  [(ascii ''path'', JStr path), (ascii ''content'', JStr B)] = (Resolved r2, w2)
                \<and> status r2 = Success \<longrightarrow>
           response r2 = Scalar (JNum (int (length B)))
           \<and> handleResource w2 (ascii ''file'') (ascii ''read'') [(ascii ''path'', JStr path)]
               = (Resolved \<lparr>event = ascii ''resource'', name = ascii ''file'', status = Success,
                             response = Scalar (JStr (A @ B))\<rparr>, w2))
      \<and> (may_access w1 path R_OK \<and> may_access w1 path W_OK \<longrightarrow>
           (\<exists>r2 w2. handleResource w1 (ascii ''file'') (ascii ''append'')
                       [(ascii ''path'', JStr path), (ascii ''content'', JStr B)]
                     = (Resolved r2, w2) \<and> status r2 = Success)))
   \<and> (validatePath w path = Inr q \<and> \<not> existsSync w q
      \<and> handleResource w (ascii ''file'') (ascii ''append'')
          [(ascii ''path'', JStr path), (ascii ''content'', JStr B)] = (Resolved r', w3)
      \<and> status r' = Success \<and> isWellFormed B \<and> \<not> prefix [0xFEFF] B \<longrightarrow>
      response r' = Scalar (JNum (int (length B)))
      \<and> (\<forall>r2 w2. handleResource w3 (ascii ''file'') (ascii ''read'') [(ascii ''path'', JStr path)]
                    = (Resolved r2, w2) \<and> status r2 = Success
                  \<longrightarrow> response r2 = Scalar (JStr B))
      \<and> (may_access w3 path R_OK \<longrightarrow>
           handleResource w3 (ascii ''file'') (ascii ''read'') [(ascii ''path'', JStr path)]
             = (Resolved \<lparr>event = ascii ''resource'', name = ascii ''file'', status = Success,
                           response = Scalar (JStr B)\<rparr>, w3)))"
proof (intro conjI impI)
  let ?append = "\<lambda>w. handleResource w (ascii ''file'') (ascii ''append'')
                       [(ascii ''path'', JStr path), (ascii ''content'', JStr B)]"
  assume a: "handleResource w (ascii ''file'') (ascii ''write'')
      [(ascii ''path'', JStr path), (ascii ''content'', JStr A)] = (Resolved r, w1)
    \<and> status r = Success \<and> isWellFormed A \<and> isWellFormed B \<and> \<not> prefix [0xFEFF] (A @ B)"
  then have wfA: "toWellFormed A = A" and wfB: "toWellFormed B = B"
    and nb: "\<not> prefix [0xFEFF] (A @ B)"
    by (simp_all add: isWellFormed_def)
  from a have hw: "handleResource w (ascii ''file'') (ascii ''write'')
      [(ascii ''path'', JStr path), (ascii ''content'', JStr A)] = (Resolved r, w1)"
    and sw: "status r = Success"
    by simp_all
  from handleResource_success [OF hw sw] obtain v where
    fw: "file_write w [(ascii ''path'', JStr path), (ascii ''content'', JStr A)] = (Returns v, w1)"
    by (auto simp: dispatch_file_write)
  from file_write_success [OF fw] wfA obtain q' st where
    q': "validatePath w1 path = Inr q'" "lookup w1 q' = Some (File A st)"
    by auto
  from nb have "stripBOM A = A"
    by (cases A) (simp_all add: stripBOM_def)
  with wfA wfB have stored: "toWellFormed (stripBOM A @ B) = A @ B"
    by (simp add: toWellFormed_append)
  let ?w2 = "w1\<lparr>fs := AList.update q' (File (A @ B) st) (fs w1)\<rparr>"
  note fa = file_append_file [OF q', of B, unfolded stored]
  have "validatePath ?w2 path = validatePath w1 path"
    by (intro validatePath_same_process) simp_all
  with q' have v2: "validatePath ?w2 path = Inr q'"
    by simp
  have l2: "lookup ?w2 q' = Some (File (A @ B) st)"
    by (simp add: lookup_def update_conv')
  have p2: "permits ?w2 st R_OK = permits w1 st R_OK"
    by (intro permits_same_user) simp_all
  from nb have sb: "stripBOM (A @ B) = A @ B"
    by (rule stripBOM_without_mark)
  show "\<forall>r2 w2. ?append w1 = (Resolved r2, w2) \<and> status r2 = Success \<longrightarrow>
           response r2 = Scalar (JNum (int (length B)))
           \<and> handleResource w2 (ascii ''file'') (ascii ''read'') [(ascii ''path'', JStr path)]
               = (Resolved \<lparr>event = ascii ''resource'', name = ascii ''file'', status = Success,
                             response = Scalar (JStr (A @ B))\<rparr>, w2)"
  proof (intro allI impI)
    fix r2 w2
    assume s: "?append w1 = (Resolved r2, w2) \<and> status r2 = Success"
    show "response r2 = Scalar (JNum (int (length B)))
           \<and> handleResource w2 (ascii ''file'') (ascii ''read'') [(ascii ''path'', JStr path)]
               = (Resolved \<lparr>event = ascii ''resource'', name = ascii ''file'', status = Success,
                             response = Scalar (JStr (A @ B))\<rparr>, w2)"
    proof (cases "permits w1 st R_OK \<and> permits w1 st W_OK")
      case True
      with fa have "?append w1
          = (Resolved \<lparr>event = ascii ''resource'', name = ascii ''file'', status = Success,
                        response = Scalar (JNum (int (length B)))\<rparr>, ?w2)"
        by (simp add: handleResource_returns dispatch_file_append)
      with s have r2: "response r2 = Scalar (JNum (int (length B)))" and w2: "w2 = ?w2"
        by auto
      from True p2 sb file_read_file [OF v2 l2]
      have "handleResource ?w2 (ascii ''file'') (ascii ''read'') [(ascii ''path'', JStr path)]
              = (Resolved \<lparr>event = ascii ''resource'', name = ascii ''file'', status = Success,
                            response = Scalar (JStr (A @ B))\<rparr>, ?w2)"
        by (simp add: handleResource_returns dispatch_file_read)
      with r2 w2 show ?thesis
        by simp
    next
      case False
      with fa have "?append w1
          = (Resolved \<lparr>event = ascii ''resource'', name = ascii ''file'', status = Failure,
                        response = Scalar (JStr (message (SystemError (ascii ''EACCES'') q')))\<rparr>,
             w1)"
        by (simp add: handleResource_throws dispatch_file_append)
      with s show ?thesis
        by auto
    qed
  qed
  show "\<exists>r2 w2. ?append w1 = (Resolved r2, w2) \<and> status r2 = Success"
    if "may_access w1 path R_OK \<and> may_access w1 path W_OK"
  proof -
    from that q' have "permits w1 st R_OK \<and> permits w1 st W_OK"
      by (simp add: may_access_def)
    with fa have "?append w1
          = (Resolved \<lparr>event = ascii ''resource'', name = ascii ''file'', status = Success,
                        response = Scalar (JNum (int (length B)))\<rparr>, ?w2)"
      by (simp add: handleResource_returns dispatch_file_append)
    then show ?thesis
      by simp
  qed
next
  assume b: "validatePath w path = Inr q \<and> \<not> existsSync w q
      \<and> handleResource w (ascii ''file'') (ascii ''append'')
          [(ascii ''path'', JStr path), (ascii ''content'', JStr B)] = (Resolved r', w3)
      \<and> status r' = Success \<and> isWellFormed B \<and> \<not> prefix [0xFEFF] B"
  then have vq: "validatePath w path = Inr q" and nq: "\<not> existsSync w q"
    and wfB: "toWellFormed B = B" and nb: "\<not> prefix [0xFEFF] B"
    by (simp_all add: isWellFormed_def)
  from b have ha: "handleResource w (ascii ''file'') (ascii ''append'')
          [(ascii ''path'', JStr path), (ascii ''content'', JStr B)] = (Resolved r', w3)"
    and sa: "status r' = Success"
    by simp_all
  from handleResource_success [OF ha sa] obtain v where
    fa: "file_append w [(ascii ''path'', JStr path), (ascii ''content'', JStr B)] = (Returns v, w3)"
    and r': "response r' = (if v = Scalar JUndefined then Scalar JNull else v)"
    by (auto simp: dispatch_file_append)
  from file_append_missing [OF vq nq fa] wfB have
    v: "v = Scalar (JNum (int (length B)))"
    and q3: "validatePath w3 path = Inr q" "lookup w3 q = Some (File B (new_stat w (file_mode w)))"
    by simp_all
  from nb have sb: "stripBOM B = B"
    by (rule stripBOM_without_mark)
  note fr = file_read_file [OF q3, unfolded sb]
  let ?read = "handleResource w3 (ascii ''file'') (ascii ''read'') [(ascii ''path'', JStr path)]"
  have rd: "?read = (if permits w3 (new_stat w (file_mode w)) R_OK
              then (Resolved \<lparr>event = ascii ''resource'', name = ascii ''file'',
                              status = Success, response = Scalar (JStr B)\<rparr>, w3)
              else (Resolved \<lparr>event = ascii ''resource'', name = ascii ''file'',
                              status = Failure,
                              response = Scalar (JStr (message (SystemError (ascii ''EACCES'') q)))\<rparr>,
                    w3))"
    using fr by (simp add: handleResource_returns handleResource_throws dispatch_file_read)
  from r' v show "response r' = Scalar (JNum (int (length B)))"
    by simp
  from rd show "\<forall>r2 w2. ?read = (Resolved r2, w2) \<and> status r2 = Success
                  \<longrightarrow> response r2 = Scalar (JStr B)"
    by (auto split: if_splits)
  from rd q3 show "?read
             = (Resolved \<lparr>event = ascii ''resource'', name = ascii ''file'', status = Success,
                           response = Scalar (JStr B)\<rparr>, w3)"
    if "may_access w3 path R_OK"
    using that by (simp add: may_access_def)
qed


text \<open>
  Writing \<open>ab\<close> to a new file and appending \<open>cde\<close> answers 2 and 3 and the file then reads
  \<open>abcde\<close>; appending \<open>cde\<close> where nothing exists answers 3 and the file then reads \<open>cde\<close>.
\<close>

theorem file_write_append_read_witness:
  "fst (handleResource example_world (ascii ''file'') (ascii ''write'')
        [(ascii ''path'', JStr (ascii ''~/.terminalwire/t.txt'')),
             (ascii ''content'', JStr (ascii ''ab''))])
            = Resolved \<lparr>event = ascii ''resource'', name = ascii ''file'', status = Success,
        response = Scalar (JNum 2)\<rparr>
   \<and> isWellFormed (ascii ''ab'') \<and> isWellFormed (ascii ''cde'')
   \<and> \<not> prefix [0xFEFF] (ascii ''ab'' @ ascii ''cde'')
   \<and> may_access (snd (handleResource example_world (ascii ''file'') (ascii ''write'')
         [(ascii ''path'', JStr (ascii ''~/.terminalwire/t.txt'')),
              (ascii ''content'', JStr (ascii ''ab''))]))
             (ascii ''~/.terminalwire/t.txt'') R_OK
   \<and> may_access (snd (handleResource example_world (ascii ''file'') (ascii ''write'')
         [(ascii ''path'', JStr (ascii ''~/.terminalwire/t.txt'')),
              (ascii ''content'', JStr (ascii ''ab''))]))
             (ascii ''~/.terminalwire/t.txt'') W_OK
   \<and> (\<exists>r2 w2. handleResource (snd (handleResource example_world (ascii ''file'') (ascii ''write'')
         [(ascii ''path'', JStr (ascii ''~/.terminalwire/t.txt'')),
              (ascii ''content'', JStr (ascii ''ab''))]))
             (ascii ''file'') (ascii ''append'')
         [(ascii ''path'', JStr (ascii ''~/.terminalwire/t.txt'')),
              (ascii ''content'', JStr (ascii ''cde''))]
             = (Resolved r2, w2)
          \<and> status r2 = Success \<and> response r2 = Scalar (JNum 3)
          \<and> handleResource w2 (ascii ''file'') (ascii ''read'')
                [(ascii ''path'', JStr (ascii ''~/.terminalwire/t.txt''))]
              = (Resolved \<lparr>event = ascii ''resource'', name = ascii ''file'', status = Success,
                    response = Scalar (JStr (ascii ''abcde''))\<rparr>, w2))
   \<and> validatePath example_world (ascii ''~/.terminalwire/n.txt'')
       = Inr (ascii ''/home/u/.terminalwire/n.txt'')
   \<and> \<not> existsSync example_world (ascii ''/home/u/.terminalwire/n.txt'')
   \<and> fst (handleResource (example_world) (ascii ''file'') (ascii ''append'')
         [(ascii ''path'', JStr (ascii ''~/.terminalwire/n.txt'')),
              (ascii ''content'', JStr (ascii ''cde''))])
             = Resolved \<lparr>event = ascii ''resource'', name = ascii ''file'', status = Success,
         response = Scalar (JNum 3)\<rparr>
   \<and> \<not> prefix [0xFEFF] (ascii ''cde'')
   \<and> may_access (snd (handleResource (example_world) (ascii ''file'') (ascii ''append'')
         [(ascii ''path'', JStr (ascii ''~/.terminalwire/n.txt'')),
              (ascii ''content'', JStr (ascii ''cde''))]))
             (ascii ''~/.terminalwire/n.txt'') R_OK
   \<and> fst (handleResource (snd (handleResource (example_world) (ascii ''file'') (ascii ''append'')
           [(ascii ''path'', JStr (ascii ''~/.terminalwire/n.txt'')),
                (ascii ''content'', JStr (ascii ''cde''))]))
               (ascii ''file'') (ascii ''read'')
         [(ascii ''path'', JStr (ascii ''~/.terminalwire/n.txt''))])
             = Resolved \<lparr>event = ascii ''resource'', name = ascii ''file'', status = Success,
         response = Scalar (JStr (ascii ''cde''))\<rparr>"
proof -
  let ?wr = "handleResource example_world (ascii ''file'') (ascii ''write'')
        [(ascii ''path'', JStr (ascii ''~/.terminalwire/t.txt'')),
             (ascii ''content'', JStr (ascii ''ab''))]"
  let ?ap = "handleResource (example_world) (ascii ''file'') (ascii ''append'')
        [(ascii ''path'', JStr (ascii ''~/.terminalwire/n.txt'')),
             (ascii ''content'', JStr (ascii ''cde''))]"
  let ?two = "\<lparr>event = ascii ''resource'', name = ascii ''file'', status = Success,
                response = Scalar (JNum 2)\<rparr>"
  let ?three = "\<lparr>event = ascii ''resource'', name = ascii ''file'', status = Success,
                  response = Scalar (JNum 3)\<rparr>"
  have f: "fst ?wr = Resolved ?two"
    by code_simp
  then have h: "?wr = (Resolved ?two, snd ?wr)"
    by (simp add: prod_eq_iff)
  have wa: "isWellFormed (ascii ''ab'')" and wb: "isWellFormed (ascii ''cde'')"
    by code_simp+
  have nab: "\<not> prefix [0xFEFF] (ascii ''ab'' @ ascii ''cde'')"
    by code_simp
  have mr: "may_access (snd ?wr) (ascii ''~/.terminalwire/t.txt'') R_OK"
    by code_simp
  have mw: "may_access (snd ?wr) (ascii ''~/.terminalwire/t.txt'') W_OK"
    by code_simp
  have v: "validatePath example_world (ascii ''~/.terminalwire/n.txt'')
             = Inr (ascii ''/home/u/.terminalwire/n.txt'')"
    by code_simp
  have n: "\<not> existsSync example_world (ascii ''/home/u/.terminalwire/n.txt'')"
    by code_simp
  have g: "fst ?ap = Resolved ?three"
    by code_simp
  then have k: "?ap = (Resolved ?three, snd ?ap)"
    by (simp add: prod_eq_iff)
  have nb: "\<not> prefix [0xFEFF] (ascii ''cde'')"
    by code_simp
  have m3: "may_access (snd ?ap) (ascii ''~/.terminalwire/n.txt'') R_OK"
    by code_simp
  note t = file_write_append_read
             [of example_world "ascii ''~/.terminalwire/t.txt''" "ascii ''ab''" ?two "snd ?wr"
                 "ascii ''cde''"]
  note u = file_write_append_read
             [of example_world "ascii ''~/.terminalwire/n.txt''" _ _ _ "ascii ''cde''"
                 "ascii ''/home/u/.terminalwire/n.txt''" ?three "snd ?ap"]
  have s2: "status ?two = Success" and s3: "status ?three = Success"
    by simp_all
  have l3: "int (length (ascii ''cde'')) = 3"
    by (simp add: ascii_def)
  have ab: "ascii ''ab'' @ ascii ''cde'' = ascii ''abcde''"
    by simp
  have p1: "?wr = (Resolved ?two, snd ?wr) \<and> status ?two = Success
            \<and> isWellFormed (ascii ''ab'') \<and> isWellFormed (ascii ''cde'')
            \<and> \<not> prefix [0xFEFF] (ascii ''ab'' @ ascii ''cde'')"
    by (intro conjI h s2 wa wb nab)
  note c = mp [OF conjunct1 [OF t] p1]
  from c mr mw obtain r2 w2 where
    a2: "handleResource (snd ?wr) (ascii ''file'') (ascii ''append'')
          [(ascii ''path'', JStr (ascii ''~/.terminalwire/t.txt'')),
               (ascii ''content'', JStr (ascii ''cde''))]
              = (Resolved r2, w2) \<and> status r2 = Success"
    by blast
  with c have
    "response r2 = Scalar (JNum (int (length (ascii ''cde''))))
     \<and> handleResource w2 (ascii ''file'') (ascii ''read'')
           [(ascii ''path'', JStr (ascii ''~/.terminalwire/t.txt''))]
               = (Resolved \<lparr>event = ascii ''resource'', name = ascii ''file'', status = Success,
                  response = Scalar (JStr (ascii ''ab'' @ ascii ''cde''))\<rparr>, w2)"
    by blast
  with a2 l3 ab have r1: "\<exists>r2 w2. handleResource (snd ?wr) (ascii ''file'') (ascii ''append'')
          [(ascii ''path'', JStr (ascii ''~/.terminalwire/t.txt'')),
               (ascii ''content'', JStr (ascii ''cde''))]
              = (Resolved r2, w2)
          \<and> status r2 = Success \<and> response r2 = Scalar (JNum 3)
          \<and> handleResource w2 (ascii ''file'') (ascii ''read'')
           [(ascii ''path'', JStr (ascii ''~/.terminalwire/t.txt''))]
               = (Resolved \<lparr>event = ascii ''resource'', name = ascii ''file'', status = Success,
           response = Scalar (JStr (ascii ''abcde''))\<rparr>, w2)"
    by auto
  have p2: "validatePath example_world (ascii ''~/.terminalwire/n.txt'')
              = Inr (ascii ''/home/u/.terminalwire/n.txt'')
            \<and> \<not> existsSync example_world (ascii ''/home/u/.terminalwire/n.txt'')
            \<and> ?ap = (Resolved ?three, snd ?ap) \<and> status ?three = Success
            \<and> isWellFormed (ascii ''cde'') \<and> \<not> prefix [0xFEFF] (ascii ''cde'')"
    by (intro conjI v n k s3 wb nb)
  note d = mp [OF conjunct2 [OF u] p2]
  from d m3 have "handleResource (snd ?ap) (ascii ''file'') (ascii ''read'')
        [(ascii ''path'', JStr (ascii ''~/.terminalwire/n.txt''))]
            = (Resolved \<lparr>event = ascii ''resource'', name = ascii ''file'', status = Success,
        response = Scalar (JStr (ascii ''cde''))\<rparr>, snd ?ap)"
    by blast
  then have r2: "fst (handleResource (snd ?ap) (ascii ''file'') (ascii ''read'')
        [(ascii ''path'', JStr (ascii ''~/.terminalwire/n.txt''))])
            = Resolved \<lparr>event = ascii ''resource'', name = ascii ''file'', status = Success,
        response = Scalar (JStr (ascii ''cde''))\<rparr>"
    by simp
  from f wa wb nab mr mw r1 v n g nb m3 r2 show ?thesis
    by blast
qed

text \<open>
  C8, as stated, fails on the code in three ways. After a content that starts with U+FEFF
  is written, the append reads it without the mark and the file then reads without it. On
  a file that the process may write and not read the write succeeds and the append does
  not. And on the allowed root, which names a directory, neither the write nor the append
  succeeds.
\<close>

theorem file_write_append_read_counterexample:
  "fst (handleResource example_world (ascii ''file'') (ascii ''write'')
        [(ascii ''path'', JStr (ascii ''~/.terminalwire/t.txt'')),
             (ascii ''content'', JStr (0xFEFF # ascii ''ab''))])
            = Resolved \<lparr>event = ascii ''resource'', name = ascii ''file'', status = Success,
        response = Scalar (JNum 3)\<rparr>
   \<and> fst (handleResource (snd (handleResource example_world (ascii ''file'') (ascii ''write'')
         [(ascii ''path'', JStr (ascii ''~/.terminalwire/t.txt'')),
              (ascii ''content'', JStr (0xFEFF # ascii ''ab''))]))
             (ascii ''file'') (ascii ''append'')
         [(ascii ''path'', JStr (ascii ''~/.terminalwire/t.txt'')),
              (ascii ''content'', JStr (ascii ''cd''))])
             = Resolved \<lparr>event = ascii ''resource'', name = ascii ''file'', status = Success,
         response = Scalar (JNum 2)\<rparr>
   \<and> fst (handleResource (snd (handleResource (snd (handleResource example_world (ascii ''file'') (ascii ''write'')
         [(ascii ''path'', JStr (ascii ''~/.terminalwire/t.txt'')),
              (ascii ''content'', JStr (0xFEFF # ascii ''ab''))]))
             (ascii ''file'') (ascii ''append'')
         [(ascii ''path'', JStr (ascii ''~/.terminalwire/t.txt'')),
              (ascii ''content'', JStr (ascii ''cd''))]))
             (ascii ''file'') (ascii ''read'')
         [(ascii ''path'', JStr (ascii ''~/.terminalwire/t.txt''))])
             = Resolved \<lparr>event = ascii ''resource'', name = ascii ''file'', status = Success,
         response = Scalar (JStr (ascii ''abcd''))\<rparr>
   \<and> fst (handleResource write_only_world (ascii ''file'') (ascii ''write'')
         [(ascii ''path'', JStr (ascii ''~/.terminalwire/t.txt'')),
              (ascii ''content'', JStr (ascii ''ab''))])
             = Resolved \<lparr>event = ascii ''resource'', name = ascii ''file'', status = Success,
         response = Scalar (JNum 2)\<rparr>
   \<and> fst (handleResource (snd (handleResource write_only_world (ascii ''file'') (ascii ''write'')
         [(ascii ''path'', JStr (ascii ''~/.terminalwire/t.txt'')),
              (ascii ''content'', JStr (ascii ''ab''))]))
             (ascii ''file'') (ascii ''append'')
         [(ascii ''path'', JStr (ascii ''~/.terminalwire/t.txt'')),
              (ascii ''content'', JStr (ascii ''cd''))])
             \<noteq> Resolved \<lparr>event = ascii ''resource'', name = ascii ''file'', status = Success,
         response = Scalar (JNum 2)\<rparr>
   \<and> validatePath example_world (ascii ''~/.terminalwire'') = Inr (ascii ''/home/u/.terminalwire'')
   \<and> fst (handleResource example_world (ascii ''file'') (ascii ''write'')
         [(ascii ''path'', JStr (ascii ''~/.terminalwire'')),
              (ascii ''content'', JStr (ascii ''ab''))])
             \<noteq> Resolved \<lparr>event = ascii ''resource'', name = ascii ''file'', status = Success,
         response = Scalar (JNum 2)\<rparr>
   \<and> fst (handleResource (snd (handleResource example_world (ascii ''file'') (ascii ''write'')
         [(ascii ''path'', JStr (ascii ''~/.terminalwire'')),
              (ascii ''content'', JStr (ascii ''ab''))]))
             (ascii ''file'') (ascii ''append'')
         [(ascii ''path'', JStr (ascii ''~/.terminalwire'')),
              (ascii ''content'', JStr (ascii ''cd''))])
             \<noteq> Resolved \<lparr>event = ascii ''resource'', name = ascii ''file'', status = Success,
         response = Scalar (JNum 2)\<rparr>"
  by code_simp


text \<open>
  C9 fails on the code for the mode 0. \<open>file.write\<close> tests the mode for truthiness, so a
  given mode of 0 leaves the permission bits of the file as they were, here \<open>0644\<close>, where
  \<open>file.change_mode\<close> with the same mode clears them and \<open>file.write\<close> with the mode \<open>0600\<close>
  sets them.
\<close>

theorem file_write_mode_zero_ignored:
  "fst (handleResource file_world (ascii ''file'') (ascii ''write'')
          [(ascii ''path'', JStr (ascii ''~/.terminalwire/t.txt'')),
           (ascii ''content'', JStr (ascii ''hi'')), (ascii ''mode'', JNum 0)])
     = Resolved \<lparr>event = ascii ''resource'', name = ascii ''file'', status = Success,
                  response = Scalar (JNum 2)\<rparr>
   \<and> lookup file_world (ascii ''/home/u/.terminalwire/t.txt'')
       = Some (File (ascii ''old'') \<lparr>st_mode = 420, st_uid = 1000, st_gid = 1000\<rparr>)
   \<and> lookup (snd (handleResource file_world (ascii ''file'') (ascii ''write'')
                    [(ascii ''path'', JStr (ascii ''~/.terminalwire/t.txt'')),
                     (ascii ''content'', JStr (ascii ''hi'')), (ascii ''mode'', JNum 0)]))
        (ascii ''/home/u/.terminalwire/t.txt'')
       = Some (File (ascii ''hi'') \<lparr>st_mode = 420, st_uid = 1000, st_gid = 1000\<rparr>)
   \<and> lookup (snd (handleResource file_world (ascii ''file'') (ascii ''write'')
                    [(ascii ''path'', JStr (ascii ''~/.terminalwire/t.txt'')),
                     (ascii ''content'', JStr (ascii ''hi'')), (ascii ''mode'', JNum 384)]))
        (ascii ''/home/u/.terminalwire/t.txt'')
       = Some (File (ascii ''hi'') \<lparr>st_mode = 384, st_uid = 1000, st_gid = 1000\<rparr>)
   \<and> lookup (snd (handleResource file_world (ascii ''file'') (ascii ''change_mode'')
                    [(ascii ''path'', JStr (ascii ''~/.terminalwire/t.txt'')),
                     (ascii ''mode'', JNum 0)]))
        (ascii ''/home/u/.terminalwire/t.txt'')
       = Some (File (ascii ''old'') \<lparr>st_mode = 0, st_uid = 1000, st_gid = 1000\<rparr>)"
  by code_simp

text \<open>
  Any other mode that \<open>chmod\<close> accepts as a number is set when the write returns, and
  without a mode parameter the bits stay as they were, or are the default of a new file.
\<close>

lemma file_write_with_mode:
  assumes "validatePath w path = Inr q" and "0 < n" and "n < 2 ^ 32"
      and "file_write w [(ascii ''path'', JStr path), (ascii ''content'', JStr C),
                         (ascii ''mode'', JNum n)] = (Returns r, w1)"
  shows "\<exists>st. lookup w1 q = Some (File (toWellFormed C) st) \<and> st_mode st = nat n mod 4096"
proof (cases "write_text w q (JStr C)")
  case (Inl e)
  with assms show ?thesis
    by (simp add: file_write_def validatePathArg_def)
next
  case wt: (Inr w')
  from write_text_result [OF wt] obtain st where "lookup w' q = Some (File (toWellFormed C) st)"
    by blast
  with assms wt show ?thesis
    by (auto simp: file_write_def validatePathArg_def truthy_def chmod_def parseFileMode_def
                   set_mode_def lengthOf_def lookup_def update_conv'
             split: if_splits)
qed

lemma file_write_without_mode:
  assumes "validatePath w path = Inr q"
      and "file_write w [(ascii ''path'', JStr path), (ascii ''content'', JStr C)] = (Returns r, w1)"
  shows "\<exists>st. lookup w1 q = Some (File (toWellFormed C) st)
           \<and> st_mode st = (case lookup w q of Some (File _ st0) \<Rightarrow> st_mode st0
                            | _ \<Rightarrow> file_mode w)"
proof (cases "write_text w q (JStr C)")
  case (Inl e)
  with assms show ?thesis
    by (simp add: file_write_def validatePathArg_def)
next
  case wt: (Inr w')
  with assms have "w' = w1"
    by (simp add: file_write_def validatePathArg_def truthy_def lengthOf_def)
  with write_text_result [OF wt] show ?thesis
    by (auto simp: new_stat_def split: option.splits node.splits)
qed

section \<open>Properties of the dispatcher\<close>

lemma message_not_empty: "message e \<noteq> []"
  by (cases e) (simp_all add: message_def ascii_simps)

lemma completes_simps [simp]:
  "completes (Returns v)" "completes (Throws e)" "\<not> completes (Exits n)" "\<not> completes Pending"
  by (simp_all add: completes_def)

lemma stdout_write_completes: "completes (fst (stdout_write w v))"
  by (cases v) (simp_all add: stdout_write_def)

lemma console_log_completes: "completes (fst (console_log w v))"
  by (simp add: console_log_def)

lemma file_read_completes: "completes (fst (file_read w p))"
  by (simp add: file_read_def split: sum.splits)

lemma file_write_completes: "completes (fst (file_write w p))"
  by (simp add: file_write_def split: sum.splits)

lemma file_append_completes: "completes (fst (file_append w p))"
  by (simp add: file_append_def split: sum.splits)

lemma file_delete_completes: "completes (fst (file_delete w p))"
  by (simp add: file_delete_def split: sum.splits)

lemma file_exist_completes: "completes (fst (file_exist w p))"
  by (simp add: file_exist_def split: sum.splits)

lemma file_change_mode_completes: "completes (fst (file_change_mode w p))"
  by (simp add: file_change_mode_def split: sum.splits)

lemma directory_list_completes: "completes (fst (directory_list w p))"
  by (simp add: directory_list_def split: sum.splits)

lemma directory_create_completes: "completes (fst (directory_create w p))"
  by (simp add: directory_create_def split: sum.splits)

lemma directory_exist_completes: "completes (fst (directory_exist w p))"
  by (simp add: directory_exist_def split: sum.splits)

lemma directory_delete_completes: "completes (fst (directory_delete w p))"
  by (simp add: directory_delete_def split: sum.splits)

lemma browser_launch_completes: "completes (fst (browser_launch w p))"
  by (simp add: browser_launch_def Let_def)

lemma environment_variable_read_completes: "completes (fst (environment_variable_read w p))"
  by (simp add: environment_variable_read_def split: sum.splits option.splits)

lemmas arm_completes =
  stdout_write_completes console_log_completes file_read_completes file_write_completes
  file_append_completes file_delete_completes file_exist_completes file_change_mode_completes
  directory_list_completes directory_create_completes directory_exist_completes
  directory_delete_completes browser_launch_completes environment_variable_read_completes


lemma completes_if:
  "(b \<Longrightarrow> completes (fst x)) \<Longrightarrow> (\<not> b \<Longrightarrow> completes (fst y))
   \<Longrightarrow> completes (fst (if b then x else y))"
  by simp

lemma dispatch_completes:
  assumes "r @ ascii ''.'' @ c \<noteq> ascii ''stdin.read_line''" and "r @ ascii ''.'' @ c \<noteq> ascii ''stdin.read_password''"
  shows "completes (fst (dispatch w r c p))"
  unfolding dispatch_def Let_def
proof (intro completes_if arm_completes)
  assume "r @ ascii ''.'' @ c = ascii ''stdin.read_line''"
  with assms(1) show "completes (fst (read_line w))"
    by contradiction
next
  assume "r @ ascii ''.'' @ c = ascii ''stdin.read_password''"
  with assms(2) show "completes (fst (readPassword w))"
    by contradiction
next
  show "completes (fst (Throws (UnknownCommand (r @ ascii ''.'' @ c)), w))"
    by simp
qed

lemma handleResource_cases:
  "fst (handleResource w r c p) =
     (case fst (dispatch w r c p) of
        Returns v \<Rightarrow>
          Resolved \<lparr>event = ascii ''resource'', name = r, status = Success,
                     response = (if v = Scalar JUndefined then Scalar JNull else v)\<rparr>
      | Throws e \<Rightarrow>
          Resolved \<lparr>event = ascii ''resource'', name = r, status = Failure,
                     response = Scalar (JStr (message e))\<rparr>
      | Exits n \<Rightarrow> Terminated n
      | Pending \<Rightarrow> Unsettled)"
  by (cases "dispatch w r c p"; cases "fst (dispatch w r c p)")
     (simp_all add: handleResource_def)

text \<open>
  C2. The promise of \<open>handleResource\<close> is never rejected. When the dispatched action throws,
  it resolves to the failure envelope that carries the message of the error, and the message
  is not empty; when the action returns, to the success envelope with the result, \<open>undefined\<close>
  replaced by \<open>null\<close>. Every command other than the two reads of standard input resolves
  to an envelope for the resource it was asked about.
\<close>

theorem handleResource_never_raises:
  "(\<forall>e. fst (handleResource w r c p) \<noteq> Rejected e)
   \<and> (\<forall>e. fst (dispatch w r c p) = Throws e \<longrightarrow>
         fst (handleResource w r c p)
           = Resolved \<lparr>event = ascii ''resource'', name = r, status = Failure,
                        response = Scalar (JStr (message e))\<rparr>
         \<and> message e \<noteq> [])
   \<and> (\<forall>v. fst (dispatch w r c p) = Returns v \<longrightarrow>
         fst (handleResource w r c p)
           = Resolved \<lparr>event = ascii ''resource'', name = r, status = Success,
                        response = (if v = Scalar JUndefined then Scalar JNull else v)\<rparr>)
   \<and> (r @ ascii ''.'' @ c \<noteq> ascii ''stdin.read_line'' \<and> r @ ascii ''.'' @ c \<noteq> ascii ''stdin.read_password'' \<longrightarrow>
         (\<exists>env. fst (handleResource w r c p) = Resolved env
                \<and> event env = ascii ''resource'' \<and> name env = r))"
proof (intro conjI allI impI)
  fix e
  show "fst (handleResource w r c p) \<noteq> Rejected e"
    by (simp add: handleResource_cases split: outcome.splits)
next
  fix e
  assume "fst (dispatch w r c p) = Throws e"
  then show "fst (handleResource w r c p)
               = Resolved \<lparr>event = ascii ''resource'', name = r, status = Failure,
                            response = Scalar (JStr (message e))\<rparr>"
    by (simp add: handleResource_cases)
next
  fix e
  show "message e \<noteq> []"
    by (rule message_not_empty)
next
  fix v
  assume "fst (dispatch w r c p) = Returns v"
  then show "fst (handleResource w r c p)
               = Resolved \<lparr>event = ascii ''resource'', name = r, status = Success,
                            response = (if v = Scalar JUndefined then Scalar JNull else v)\<rparr>"
    by (simp add: handleResource_cases)
next
  assume "r @ ascii ''.'' @ c \<noteq> ascii ''stdin.read_line'' \<and> r @ ascii ''.'' @ c \<noteq> ascii ''stdin.read_password''"
  then have "completes (fst (dispatch w r c p))"
    by (simp add: dispatch_completes)
  then show "\<exists>env. fst (handleResource w r c p) = Resolved env
                  \<and> event env = ascii ''resource'' \<and> name env = r"
    by (cases "fst (dispatch w r c p)") (simp_all add: handleResource_cases)
qed


theorem handleResource_never_raises_witness:
  "fst (dispatch example_world (ascii ''file'') (ascii ''read'') [(ascii ''path'', JStr (ascii ''../../etc/passwd''))])
     = Throws OutsideHome
   \<and> fst (handleResource example_world (ascii ''file'') (ascii ''read'') [(ascii ''path'', JStr (ascii ''../../etc/passwd''))])
     = Resolved \<lparr>event = ascii ''resource'', name = ascii ''file'', status = Failure,
                  response = Scalar (JStr (ascii ''Access denied: path must be within home directory''))\<rparr>
   \<and> fst (dispatch example_world (ascii ''environment_variable'') (ascii ''read'') [(ascii ''name'', JStr (ascii ''HOME''))])
     = Returns (Scalar (JStr (ascii ''/home/u'')))
   \<and> fst (handleResource example_world (ascii ''environment_variable'') (ascii ''read'')
            [(ascii ''name'', JStr (ascii ''HOME''))])
     = Resolved \<lparr>event = ascii ''resource'', name = ascii ''environment_variable'', status = Success,
                  response = Scalar (JStr (ascii ''/home/u''))\<rparr>
   \<and> ascii ''shell'' @ ascii ''.'' @ ascii ''run'' \<noteq> ascii ''stdin.read_line''
   \<and> ascii ''shell'' @ ascii ''.'' @ ascii ''run'' \<noteq> ascii ''stdin.read_password''
   \<and> (\<exists>env. fst (handleResource example_world (ascii ''shell'') (ascii ''run'') []) = Resolved env
          \<and> event env = ascii ''resource'' \<and> name env = ascii ''shell'')"
proof -
  have t: "fst (dispatch example_world (ascii ''file'') (ascii ''read'') [(ascii ''path'', JStr (ascii ''../../etc/passwd''))])
             = Throws OutsideHome"
    by code_simp
  have m: "message OutsideHome = ascii ''Access denied: path must be within home directory''"
    by (simp add: message_def)
  have v: "fst (dispatch example_world (ascii ''environment_variable'') (ascii ''read'')
                  [(ascii ''name'', JStr (ascii ''HOME''))])
             = Returns (Scalar (JStr (ascii ''/home/u'')))"
    by code_simp
  have k: "ascii ''shell'' @ ascii ''.'' @ ascii ''run'' \<noteq> ascii ''stdin.read_line''
           \<and> ascii ''shell'' @ ascii ''.'' @ ascii ''run'' \<noteq> ascii ''stdin.read_password''"
    by simp
  from handleResource_never_raises
         [of example_world "ascii ''file''" "ascii ''read''" "[(ascii ''path'', JStr (ascii ''../../etc/passwd''))]"] t m
  have r1: "fst (handleResource example_world (ascii ''file'') (ascii ''read'')
                   [(ascii ''path'', JStr (ascii ''../../etc/passwd''))])
     = Resolved \<lparr>event = ascii ''resource'', name = ascii ''file'', status = Failure,
                  response = Scalar (JStr (ascii ''Access denied: path must be within home directory''))\<rparr>"
    by simp
  from handleResource_never_raises
         [of example_world "ascii ''environment_variable''" "ascii ''read''" "[(ascii ''name'', JStr (ascii ''HOME''))]"] v
  have r2: "fst (handleResource example_world (ascii ''environment_variable'') (ascii ''read'')
            [(ascii ''name'', JStr (ascii ''HOME''))])
     = Resolved \<lparr>event = ascii ''resource'', name = ascii ''environment_variable'', status = Success,
                  response = Scalar (JStr (ascii ''/home/u''))\<rparr>"
    by simp
  from handleResource_never_raises [of example_world "ascii ''shell''" "ascii ''run''" "[]"] k
  have r3: "\<exists>env. fst (handleResource example_world (ascii ''shell'') (ascii ''run'') []) = Resolved env
          \<and> event env = ascii ''resource'' \<and> name env = ascii ''shell''"
    by blast
  from t r1 v r2 k r3 show ?thesis
    by blast
qed

text \<open>
  C4. \<open>file.exist\<close> and \<open>directory.exist\<close> answer with a success envelope holding \<open>false\<close>, and
  change nothing, both when the validation refuses the path and when the path is valid and
  nothing exists there.
\<close>

theorem exist_false_when_missing_or_disallowed:
  assumes "resource = ascii ''file'' \<or> resource = ascii ''directory''"
      and "param p (ascii ''path'') = JStr path"
      and "(\<exists>e. validatePath w path = Inl e)
           \<or> (\<exists>q. validatePath w path = Inr q \<and> \<not> existsSync w q)"
  shows "handleResource w resource (ascii ''exist'') p
           = (Resolved \<lparr>event = ascii ''resource'', name = resource, status = Success,
                         response = Scalar (JBool False)\<rparr>, w)"
proof -
  from assms(2,3) have f: "file_exist w p = (Returns (Scalar (JBool False)), w)"
    by (auto simp: file_exist_def validatePathArg_def)
  from assms(2,3) have d: "directory_exist w p = (Returns (Scalar (JBool False)), w)"
    by (auto simp: directory_exist_def validatePathArg_def)
  from assms(1) f d show ?thesis
    by (auto simp: handleResource_def dispatch_file_exist dispatch_directory_exist)
qed

theorem exist_false_when_missing_or_disallowed_witness:
  "(\<exists>e. validatePath example_world (ascii ''/etc/passwd'') = Inl e)
   \<and> fst (handleResource example_world (ascii ''file'') (ascii ''exist'') [(ascii ''path'', JStr (ascii ''/etc/passwd''))])
       = Resolved \<lparr>event = ascii ''resource'', name = ascii ''file'', status = Success,
                    response = Scalar (JBool False)\<rparr>
   \<and> (\<exists>q. validatePath example_world (ascii ''~/.terminalwire/none'') = Inr q
          \<and> \<not> existsSync example_world q)
   \<and> fst (handleResource example_world (ascii ''directory'') (ascii ''exist'')
            [(ascii ''path'', JStr (ascii ''~/.terminalwire/none''))])
       = Resolved \<lparr>event = ascii ''resource'', name = ascii ''directory'', status = Success,
                    response = Scalar (JBool False)\<rparr>"
proof -
  have a: "validatePath example_world (ascii ''/etc/passwd'') = Inl OutsideHome"
    by code_simp
  then have a': "(\<exists>e. validatePath example_world (ascii ''/etc/passwd'') = Inl e)
           \<or> (\<exists>q. validatePath example_world (ascii ''/etc/passwd'') = Inr q
                  \<and> \<not> existsSync example_world q)"
    by blast
  have b: "validatePath example_world (ascii ''~/.terminalwire/none'') = Inr (ascii ''/home/u/.terminalwire/none'')
           \<and> \<not> existsSync example_world (ascii ''/home/u/.terminalwire/none'')"
    by code_simp
  then have b': "(\<exists>e. validatePath example_world (ascii ''~/.terminalwire/none'') = Inl e)
           \<or> (\<exists>q. validatePath example_world (ascii ''~/.terminalwire/none'') = Inr q
                  \<and> \<not> existsSync example_world q)"
    by blast
  have pa: "param [(ascii ''path'', JStr (ascii ''/etc/passwd''))] (ascii ''path'') = JStr (ascii ''/etc/passwd'')"
    by simp
  have pb: "param [(ascii ''path'', JStr (ascii ''~/.terminalwire/none''))] (ascii ''path'')
              = JStr (ascii ''~/.terminalwire/none'')"
    by simp
  have r1: "fst (handleResource example_world (ascii ''file'') (ascii ''exist'')
                   [(ascii ''path'', JStr (ascii ''/etc/passwd''))])
       = Resolved \<lparr>event = ascii ''resource'', name = ascii ''file'', status = Success,
                    response = Scalar (JBool False)\<rparr>"
    using exist_false_when_missing_or_disallowed [OF disjI1 [OF refl] pa a']
    by simp
  have r2: "fst (handleResource example_world (ascii ''directory'') (ascii ''exist'')
            [(ascii ''path'', JStr (ascii ''~/.terminalwire/none''))])
       = Resolved \<lparr>event = ascii ''resource'', name = ascii ''directory'', status = Success,
                    response = Scalar (JBool False)\<rparr>"
    using exist_false_when_missing_or_disallowed [OF disjI2 [OF refl] pb b']
    by simp
  from a b r1 r2 show ?thesis
    by blast
qed

section \<open>Properties of the transport\<close>

text \<open>
  C5. A frame of more than 1 MiB is discarded by both handlers: the handler completes, the
  only change to the connection is the diagnostic line (after the debug line, where debug
  output is on), so \<open>onMessage\<close> is not called and the connection is not closed, and the
  frames that follow are handled as usual.
\<close>

theorem oversized_frame_discarded:
  assumes "length buffer > MAX_MESSAGE_SIZE"
  shows "onmessage_plain decode onMessage buffer c
           = Completed (c\<lparr>errors := errors c @ [ascii ''Message too large, ignoring'']\<rparr>)
       \<and> onmessage_debug debug decode stringify onMessage buffer c
           = Completed (c\<lparr>errors :=
                errors (debug_log debug
                          (ascii ''[DEBUG] Received '' @ decimal (length buffer) @ ascii '' bytes'') c)
                @ [ascii ''Message too large, ignoring'']\<rparr>)
       \<and> receive (onmessage_plain decode onMessage) (buffer # rest) c
           = receive (onmessage_plain decode onMessage) rest
               (c\<lparr>errors := errors c @ [ascii ''Message too large, ignoring'']\<rparr>)
       \<and> receive (onmessage_debug debug decode stringify onMessage) (buffer # rest) c
           = receive (onmessage_debug debug decode stringify onMessage) rest
               (c\<lparr>errors :=
                  errors (debug_log debug
                            (ascii ''[DEBUG] Received '' @ decimal (length buffer) @ ascii '' bytes'') c)
                  @ [ascii ''Message too large, ignoring'']\<rparr>)"
proof -
  from assms have p: "onmessage_plain decode onMessage buffer c
           = Completed (c\<lparr>errors := errors c @ [ascii ''Message too large, ignoring'']\<rparr>)"
    by (simp add: onmessage_plain_def)
  from assms have d: "onmessage_debug debug decode stringify onMessage buffer c
           = Completed (c\<lparr>errors :=
                errors (debug_log debug
                          (ascii ''[DEBUG] Received '' @ decimal (length buffer) @ ascii '' bytes'') c)
                @ [ascii ''Message too large, ignoring'']\<rparr>)"
    by (simp add: onmessage_debug_def Let_def debug_log_def)
  from p d show ?thesis
    by simp
qed

theorem oversized_frame_discarded_witness:
  "length oversized_frame > MAX_MESSAGE_SIZE
   \<and> onmessage_plain decode_scalar collect oversized_frame idle_connection
       = Completed \<lparr>closed = False, errors = [ascii ''Message too large, ignoring''],
                    delivered = [], session = []\<rparr>
   \<and> onmessage_debug False decode_scalar toString collect oversized_frame idle_connection
       = Completed \<lparr>closed = False, errors = [ascii ''Message too large, ignoring''],
                    delivered = [], session = []\<rparr>
   \<and> receive (onmessage_plain decode_scalar collect) [oversized_frame, [42]] idle_connection
       = Completed \<lparr>closed = False, errors = [ascii ''Message too large, ignoring''],
                    delivered = [JNum 42], session = [JNum 42]\<rparr>
   \<and> receive (onmessage_debug False decode_scalar toString collect) [oversized_frame, [42]]
         idle_connection
       = Completed \<lparr>closed = False, errors = [ascii ''Message too large, ignoring''],
                    delivered = [JNum 42], session = [JNum 42]\<rparr>"
proof -
  have big: "length oversized_frame > MAX_MESSAGE_SIZE"
    by (simp add: oversized_frame_def)
  have small: "\<not> length [42::nat] > MAX_MESSAGE_SIZE"
    by (simp add: MAX_MESSAGE_SIZE_def)
  note t = oversized_frame_discarded [OF big, of decode_scalar collect idle_connection False
                                         toString "[[42]]"]
  from t have a: "onmessage_plain decode_scalar collect oversized_frame idle_connection
       = Completed \<lparr>closed = False, errors = [ascii ''Message too large, ignoring''],
                    delivered = [], session = []\<rparr>"
    by (simp add: idle_connection_def)
  from t have b: "onmessage_debug False decode_scalar toString collect oversized_frame
                    idle_connection
       = Completed \<lparr>closed = False, errors = [ascii ''Message too large, ignoring''],
                    delivered = [], session = []\<rparr>"
    by (simp add: idle_connection_def debug_log_def)
  from t small have c: "receive (onmessage_plain decode_scalar collect) [oversized_frame, [42]]
                          idle_connection
       = Completed \<lparr>closed = False, errors = [ascii ''Message too large, ignoring''],
                    delivered = [JNum 42], session = [JNum 42]\<rparr>"
    by (simp add: idle_connection_def onmessage_plain_def decode_scalar_def collect_def)
  from t small have d: "receive (onmessage_debug False decode_scalar toString collect)
                          [oversized_frame, [42]] idle_connection
       = Completed \<lparr>closed = False, errors = [ascii ''Message too large, ignoring''],
                    delivered = [JNum 42], session = [JNum 42]\<rparr>"
    by (simp add: idle_connection_def onmessage_debug_def debug_log_def decode_scalar_def
                  collect_def)
  from big a b c d show ?thesis
    by blast
qed

text \<open>
  In the copy of the client without \<open>try\<close>, a decoding error escapes the handler.
\<close>

lemma decode_failure_escapes_plain:
  assumes "length buffer \<le> MAX_MESSAGE_SIZE" and "decode buffer = Inl e"
  shows "onmessage_plain decode onMessage buffer c = Uncaught e c"
  using assms by (simp add: onmessage_plain_def)

text \<open>
  C6, as amended. In the copy of the client that decodes inside \<open>try\<close>, a frame within the
  cap that fails to decode is caught by the handler: the handler completes, \<open>onMessage\<close> is
  not called, the frames that follow are handled, and the error is logged only when debug
  output is on.
\<close>

theorem decode_failure_caught:
  assumes "length buffer \<le> MAX_MESSAGE_SIZE" and "decode buffer = Inl e"
  shows "onmessage_debug debug decode stringify onMessage buffer c
           = Completed (c\<lparr>errors :=
               errors c @ (if debug
                           then [ascii ''[DEBUG] Received '' @ decimal (length buffer) @ ascii '' bytes'',
                                 ascii ''[DEBUG] Error handling message: '' @ errorToString e]
                           else [])\<rparr>)
       \<and> receive (onmessage_debug debug decode stringify onMessage) (buffer # rest) c
           = receive (onmessage_debug debug decode stringify onMessage) rest
               (c\<lparr>errors :=
                  errors c @ (if debug
                              then [ascii ''[DEBUG] Received '' @ decimal (length buffer) @ ascii '' bytes'',
                                    ascii ''[DEBUG] Error handling message: '' @ errorToString e]
                              else [])\<rparr>)"
proof -
  from assms have "onmessage_debug debug decode stringify onMessage buffer c
           = Completed (c\<lparr>errors :=
               errors c @ (if debug
                           then [ascii ''[DEBUG] Received '' @ decimal (length buffer) @ ascii '' bytes'',
                                 ascii ''[DEBUG] Error handling message: '' @ errorToString e]
                           else [])\<rparr>)"
    by (simp add: onmessage_debug_def Let_def debug_log_def)
  then show ?thesis
    by simp
qed

theorem decode_failure_caught_witness:
  "length [193::nat] \<le> MAX_MESSAGE_SIZE
   \<and> decode_scalar [193] = Inl DecodeError
   \<and> onmessage_debug True decode_scalar toString collect [193] idle_connection
       = Completed \<lparr>closed = False,
                    errors = [ascii ''[DEBUG] Received 1 bytes'',
                              ascii ''[DEBUG] Error handling message: '' @ errorToString DecodeError],
                    delivered = [], session = []\<rparr>
   \<and> receive (onmessage_debug False decode_scalar toString collect) [[193], [42]]
         idle_connection
       = Completed \<lparr>closed = False, errors = [], delivered = [JNum 42], session = [JNum 42]\<rparr>"
proof -
  have a: "length [193::nat] \<le> MAX_MESSAGE_SIZE"
    by (simp add: MAX_MESSAGE_SIZE_def)
  have b: "decode_scalar [193] = Inl DecodeError"
    by (simp add: decode_scalar_def)
  have small: "\<not> length [42::nat] > MAX_MESSAGE_SIZE"
    by (simp add: MAX_MESSAGE_SIZE_def)
  have one: "decimal 1 = ascii ''1''"
    by code_simp
  from decode_failure_caught
         [where decode = decode_scalar and debug = True and stringify = toString
            and onMessage = collect and c = idle_connection, OF a b] one
  have r1: "onmessage_debug True decode_scalar toString collect [193] idle_connection
       = Completed \<lparr>closed = False,
                    errors = [ascii ''[DEBUG] Received 1 bytes'',
                              ascii ''[DEBUG] Error handling message: '' @ errorToString DecodeError],
                    delivered = [], session = []\<rparr>"
    by (simp add: idle_connection_def message_def)
  from decode_failure_caught
         [where decode = decode_scalar and debug = False and stringify = toString
            and onMessage = collect and c = idle_connection and rest = "[[42]]", OF a b] small
  have r2: "receive (onmessage_debug False decode_scalar toString collect) [[193], [42]]
         idle_connection
       = Completed \<lparr>closed = False, errors = [], delivered = [JNum 42], session = [JNum 42]\<rparr>"
    by (simp add: idle_connection_def onmessage_debug_def debug_log_def decode_scalar_def
                  collect_def)
  from a b r1 r2 show ?thesis
    by blast
qed

text \<open>
  C6, as stated, fails on the frame \<open>0xC1\<close>: in the copy without \<open>try\<close> the error escapes
  the handler and the frame after it is not handled, and in the other copy, with debug output
  off, nothing is logged.
\<close>

theorem decode_failure_counterexample:
  "length [193::nat] \<le> MAX_MESSAGE_SIZE
   \<and> decode_scalar [193] = Inl DecodeError
   \<and> onmessage_plain decode_scalar collect [193] idle_connection
       = Uncaught DecodeError idle_connection
   \<and> receive (onmessage_plain decode_scalar collect) [[193], [42]] idle_connection
       = Uncaught DecodeError idle_connection
   \<and> onmessage_debug False decode_scalar toString collect [193] idle_connection
       = Completed idle_connection
   \<and> errors idle_connection = []"
  by (simp add: MAX_MESSAGE_SIZE_def decode_scalar_def onmessage_plain_def onmessage_debug_def
                debug_log_def idle_connection_def)

end
